theory Spec2Isabelle
  imports Complex_Main "HOL-Library.Monad_Syntax" "HOL-Library.Multiset"
begin

section \<open>The lattice planner's trajectory evaluator\<close>

text \<open>
  A shallow embedding of
  \<^verbatim>\<open>modules/planning/lattice/trajectory_generation/trajectory_evaluator.cc\<close>.

  Conventions of the embedding.
  \<^item> A C++ \<^verbatim>\<open>double\<close> is a \<^typ>\<open>real\<close>: arithmetic is exact, there is no rounding, no
    infinity and no NaN. A division whose divisor is zero is outside this idealisation
    (HOL gives it the value 0, IEEE arithmetic gives an infinity or a NaN), so every
    theorem whose truth rests on such a division states the divisor's being non-zero
    as a hypothesis.
  \<^item> The gflags \<^verbatim>\<open>FLAGS_...\<close> are declared outside this file; they are the fields of
    the record \<open>flags\<close>, passed to every function that reads one.
  \<^item> A \<^verbatim>\<open>std::shared_ptr<Curve1d>\<close> is the curve it points to: a record of the two
    virtual methods the evaluator calls. Curves are never mutated here.
  \<^item> \<^verbatim>\<open>CHECK(c)\<close> aborts the process when \<open>c\<close> is false: the functions that contain
    one return \<open>fault + 'a\<close>, with \<open>Inl CheckFailed\<close> for the abort.
  \<^item> A \<^verbatim>\<open>for (double t = a; t < b; t += step)\<close> loop need not terminate (it does not
    when \<open>step \<le> 0\<close> and \<open>a < b\<close>): it is the partial function \<open>for_loop\<close>, and every
    function that runs one returns an \<open>option\<close>, \<open>None\<close> standing for a loop that never
    ends. The counter is an exact real: the source adds the step in binary64, where
    rounding can make the loop run one time more or less than the exact count (81 times
    for a horizon of 8.0 and a step of 0.1, not 80). No property below states how many
    times a loop runs.
\<close>

subsection \<open>Data model\<close>

text \<open>\<^verbatim>\<open>Curve1d\<close>: \<^verbatim>\<open>Evaluate(order, param)\<close> and \<^verbatim>\<open>ParamLength()\<close>.\<close>

record Curve1d =
  Curve_Evaluate :: "nat \<Rightarrow> real \<Rightarrow> real"
  ParamLength :: real

type_synonym Trajectory1d = Curve1d

text \<open>
  \<^verbatim>\<open>PlanningTarget\<close> (a protobuf message): \<^verbatim>\<open>cruise_speed()\<close>, and the optional stop
  point, of which only \<^verbatim>\<open>stop_point().s()\<close> is read, and only under
  \<^verbatim>\<open>has_stop_point()\<close>.
\<close>

record PlanningTarget =
  cruise_speed :: real
  stop_point_s :: "real option"

definition has_stop_point :: "PlanningTarget \<Rightarrow> bool" where
  "has_stop_point planning_target = (stop_point_s planning_target \<noteq> None)"

text \<open>
  \<^verbatim>\<open>PathTimeGraph\<close>: only \<^verbatim>\<open>GetPathBlockingIntervals(start, end, resolution)\<close> is called;
  it returns, per time slice, the blocked intervals \<open>(s_min, s_max)\<close>.
\<close>

record PathTimeGraph =
  GetPathBlockingIntervals :: "real \<Rightarrow> real \<Rightarrow> real \<Rightarrow> (real \<times> real) list list"

record flags =
  FLAGS_trajectory_time_length :: real
  FLAGS_trajectory_time_resolution :: real
  FLAGS_trajectory_space_resolution :: real
  FLAGS_decision_horizon :: real
  FLAGS_enable_auto_tuning :: bool
  FLAGS_weight_lon_travel :: real
  FLAGS_weight_lon_jerk :: real
  FLAGS_weight_lon_collision :: real
  FLAGS_weight_lat_offset :: real
  FLAGS_weight_lat_comfort :: real
  FLAGS_lat_offset_bound :: real
  FLAGS_weight_opposite_side_offset :: real
  FLAGS_weight_same_side_offset :: real
  FLAGS_lattice_epsilon :: real
  FLAGS_longitudinal_jerk_upper_bound :: real
  FLAGS_weight_target_speed :: real
  FLAGS_weight_dist_travelled :: real
  FLAGS_lon_collision_cost_std :: real
  FLAGS_lon_collision_yield_buffer :: real
  FLAGS_lon_collision_overtake_buffer :: real
  FLAGS_longitudinal_acceleration_lower_bound :: real
  FLAGS_comfort_acceleration_factor :: real

text \<open>
  \<^verbatim>\<open>PairCost\<close> is \<^verbatim>\<open>pair<pair<ptr, ptr>, double>\<close> and \<^verbatim>\<open>PairCostWithComponents\<close> is
  \<^verbatim>\<open>pair<pair<ptr, ptr>, pair<vector<double>, double>>\<close>, as the uses of
  \<^verbatim>\<open>.first\<close>, \<^verbatim>\<open>.second\<close> and \<^verbatim>\<open>.second.second\<close> in the source show.
\<close>

type_synonym TrajectoryPair = "Trajectory1d \<times> Trajectory1d"
type_synonym PairCost = "TrajectoryPair \<times> real"
type_synonym PairCostWithComponents = "TrajectoryPair \<times> (real list \<times> real)"

subsection \<open>\<^verbatim>\<open>std::priority_queue\<close>\<close>

text \<open>
  A \<^verbatim>\<open>std::priority_queue<T, std::vector<T>, Compare>\<close> is modelled by the list of its
  elements in insertion order; the arrangement of the underlying heap is abstracted
  away. \<open>cmp a b\<close> reads "\<open>a\<close> is ordered before \<open>b\<close>", and \<^verbatim>\<open>top()\<close> is an element
  that \<open>cmp\<close> orders before no other element; among several such elements the model
  takes the one that was pushed first. \<open>pq_extract\<close> returns the top element together
  with the elements that remain after \<^verbatim>\<open>pop()\<close>.
\<close>

type_synonym 'a priority_queue = "'a list"

definition pq_push :: "'a \<Rightarrow> 'a priority_queue \<Rightarrow> 'a priority_queue" where
  "pq_push x q = q @ [x]"

fun pq_extract :: "('a \<Rightarrow> 'a \<Rightarrow> bool) \<Rightarrow> 'a priority_queue \<Rightarrow> ('a \<times> 'a priority_queue) option" where
  "pq_extract cmp [] = None"
| "pq_extract cmp (x # xs) =
     (case pq_extract cmp xs of
        None \<Rightarrow> Some (x, [])
      | Some (b, rest) \<Rightarrow> if cmp x b then Some (b, x # rest) else Some (x, xs))"

definition pq_top :: "('a \<Rightarrow> 'a \<Rightarrow> bool) \<Rightarrow> 'a priority_queue \<Rightarrow> 'a option" where
  "pq_top cmp q = map_option fst (pq_extract cmp q)"

definition pq_pop :: "('a \<Rightarrow> 'a \<Rightarrow> bool) \<Rightarrow> 'a priority_queue \<Rightarrow> 'a priority_queue" where
  "pq_pop cmp q = (case pq_extract cmp q of None \<Rightarrow> [] | Some (b, rest) \<Rightarrow> rest)"

definition pq_empty :: "'a priority_queue \<Rightarrow> bool" where
  "pq_empty q = (q = [])"

definition pq_size :: "'a priority_queue \<Rightarrow> nat" where
  "pq_size q = length q"

text \<open>
  Modelled from the spec: the comparators of the two queues, \<^verbatim>\<open>CostComparator\<close> and
  \<^verbatim>\<open>CostComponentComparator\<close>, are declared in \<^verbatim>\<open>trajectory_evaluator.h\<close>, which is
  not among the sources. The spec orders the store "ascending by total cost (lowest
  cost = best = retrieved first)" and asks for a comparator that "treats larger cost
  as lower priority": the entry with the larger total cost is ordered before the other.
\<close>

definition CostComparator :: "PairCost \<Rightarrow> PairCost \<Rightarrow> bool" where
  "CostComparator left right = (snd left > snd right)"

definition CostComponentComparator ::
  "PairCostWithComponents \<Rightarrow> PairCostWithComponents \<Rightarrow> bool" where
  "CostComponentComparator left right = (snd (snd left) > snd (snd right))"

subsection \<open>The evaluator object and its accessors\<close>

text \<open>
  The members of the class; Isabelle names cannot end in an underscore, so
  \<^verbatim>\<open>cost_queue_\<close> is \<open>cost_queue\<close>, and so on.
\<close>

record TrajectoryEvaluator =
  path_time_graph :: PathTimeGraph
  init_s :: "real \<times> real \<times> real"
  path_time_intervals :: "(real \<times> real) list list"
  cost_queue :: "PairCost priority_queue"
  cost_queue_with_components :: "PairCostWithComponents priority_queue"

text \<open>
  \<open>CheckFailed\<close> is the abort of a failed \<^verbatim>\<open>CHECK\<close>. \<open>TopOfEmptyQueue\<close> marks a call of
  \<^verbatim>\<open>top()\<close> on an empty \<^verbatim>\<open>std::priority_queue\<close>, which the C++ standard leaves
  undefined: no check of the program guards it.
\<close>

datatype fault = CheckFailed | TopOfEmptyQueue

definition has_more_trajectory_pairs :: "flags \<Rightarrow> TrajectoryEvaluator \<Rightarrow> bool" where
  "has_more_trajectory_pairs cfg this =
     (if \<not> FLAGS_enable_auto_tuning cfg then \<not> pq_empty (cost_queue this)
      else \<not> pq_empty (cost_queue_with_components this))"

definition num_of_trajectory_pairs :: "flags \<Rightarrow> TrajectoryEvaluator \<Rightarrow> nat" where
  "num_of_trajectory_pairs cfg this =
     (if \<not> FLAGS_enable_auto_tuning cfg then pq_size (cost_queue this)
      else pq_size (cost_queue_with_components this))"

definition next_top_trajectory_pair ::
  "flags \<Rightarrow> TrajectoryEvaluator \<Rightarrow> fault + (TrajectoryPair \<times> TrajectoryEvaluator)" where
  "next_top_trajectory_pair cfg this =
     (if \<not> (has_more_trajectory_pairs cfg this = True) then Inl CheckFailed
      else if \<not> FLAGS_enable_auto_tuning cfg then
        (case pq_top CostComparator (cost_queue this) of
           None \<Rightarrow> Inl TopOfEmptyQueue
         | Some top_elem \<Rightarrow>
             Inr (fst top_elem,
                  this\<lparr>cost_queue := pq_pop CostComparator (cost_queue this)\<rparr>))
      else
        (case pq_top CostComponentComparator (cost_queue_with_components this) of
           None \<Rightarrow> Inl TopOfEmptyQueue
         | Some top_elem \<Rightarrow>
             Inr (fst top_elem,
                  this\<lparr>cost_queue_with_components :=
                         pq_pop CostComponentComparator (cost_queue_with_components this)\<rparr>)))"

definition top_trajectory_pair_cost :: "flags \<Rightarrow> TrajectoryEvaluator \<Rightarrow> fault + real" where
  "top_trajectory_pair_cost cfg this =
     (if \<not> FLAGS_enable_auto_tuning cfg then
        (case pq_top CostComparator (cost_queue this) of
           None \<Rightarrow> Inl TopOfEmptyQueue
         | Some top_elem \<Rightarrow> Inr (snd top_elem))
      else
        (case pq_top CostComponentComparator (cost_queue_with_components this) of
           None \<Rightarrow> Inl TopOfEmptyQueue
         | Some top_elem \<Rightarrow> Inr (snd (snd top_elem))))"

definition top_trajectory_pair_component_cost ::
  "flags \<Rightarrow> TrajectoryEvaluator \<Rightarrow> fault + real list" where
  "top_trajectory_pair_component_cost cfg this =
     (if \<not> FLAGS_enable_auto_tuning cfg then Inl CheckFailed
      else
        (case pq_top CostComponentComparator (cost_queue_with_components this) of
           None \<Rightarrow> Inl TopOfEmptyQueue
         | Some top_elem \<Rightarrow> Inr (fst (snd top_elem))))"

subsection \<open>Loops over a real-valued counter\<close>

text \<open>
  \<^verbatim>\<open>for (double t = t0; t < bound; t += step) acc = body(t, acc);\<close>
\<close>

partial_function (option) for_loop ::
  "real \<Rightarrow> real \<Rightarrow> real \<Rightarrow> (real \<Rightarrow> 'a \<Rightarrow> 'a) \<Rightarrow> 'a \<Rightarrow> 'a option" where
  "for_loop t bound step body acc =
     (if t < bound then for_loop (t + step) bound step body (body t acc) else Some acc)"

declare for_loop.simps [code]

text \<open>
  When \<open>0 < step\<close> the loop of the model runs \<open>loop_count\<close> times, its counter taking
  the values \<open>loop_points\<close> in order. These serve the proofs that a loop ends; the count
  is that of exact arithmetic, not of binary64.
\<close>

definition loop_count :: "real \<Rightarrow> real \<Rightarrow> real \<Rightarrow> nat" where
  "loop_count t bound step = nat \<lceil>(bound - t) / step\<rceil>"

definition loop_points :: "real \<Rightarrow> real \<Rightarrow> real \<Rightarrow> real list" where
  "loop_points t bound step = map (\<lambda>k. t + real k * step) [0..<loop_count t bound step]"

subsection \<open>The cost terms\<close>

fun LatOffsetCost_loop ::
  "flags \<Rightarrow> Trajectory1d \<Rightarrow> real \<Rightarrow> real list \<Rightarrow> real \<times> real \<Rightarrow> real \<times> real" where
  "LatOffsetCost_loop cfg lat_trajectory lat_offset_start [] acc = acc"
| "LatOffsetCost_loop cfg lat_trajectory lat_offset_start (s # s_values) (cost_sqr_sum, cost_abs_sum) =
     (let lat_offset = Curve_Evaluate lat_trajectory 0 s;
          cost = lat_offset / FLAGS_lat_offset_bound cfg
      in if lat_offset * lat_offset_start < 0 then
           LatOffsetCost_loop cfg lat_trajectory lat_offset_start s_values
             (cost_sqr_sum + cost * cost * FLAGS_weight_opposite_side_offset cfg,
              cost_abs_sum + \<bar>cost\<bar> * FLAGS_weight_opposite_side_offset cfg)
         else
           LatOffsetCost_loop cfg lat_trajectory lat_offset_start s_values
             (cost_sqr_sum + cost * cost * FLAGS_weight_same_side_offset cfg,
              cost_abs_sum + \<bar>cost\<bar> * FLAGS_weight_same_side_offset cfg))"

definition LatOffsetCost :: "flags \<Rightarrow> Trajectory1d \<Rightarrow> real list \<Rightarrow> real" where
  "LatOffsetCost cfg lat_trajectory s_values =
     (let lat_offset_start = Curve_Evaluate lat_trajectory 0 0;
          (cost_sqr_sum, cost_abs_sum) =
            LatOffsetCost_loop cfg lat_trajectory lat_offset_start s_values (0, 0)
      in cost_sqr_sum / (cost_abs_sum + FLAGS_lattice_epsilon cfg))"

definition LatComfortCost :: "flags \<Rightarrow> Trajectory1d \<Rightarrow> Trajectory1d \<Rightarrow> real option" where
  "LatComfortCost cfg lon_trajectory lat_trajectory =
     for_loop 0 (FLAGS_trajectory_time_length cfg) (FLAGS_trajectory_time_resolution cfg)
       (\<lambda>t max_cost.
          let s = Curve_Evaluate lon_trajectory 0 t;
              s_dot = Curve_Evaluate lon_trajectory 1 t;
              s_dotdot = Curve_Evaluate lon_trajectory 2 t;
              l_prime = Curve_Evaluate lat_trajectory 1 s;
              l_primeprime = Curve_Evaluate lat_trajectory 2 s;
              cost = l_primeprime * s_dot * s_dot + l_prime * s_dotdot
          in max max_cost \<bar>cost\<bar>)
       0"

definition LonComfortCost :: "flags \<Rightarrow> Trajectory1d \<Rightarrow> real option" where
  "LonComfortCost cfg lon_trajectory =
     do {
       (cost_sqr_sum, cost_abs_sum) \<leftarrow>
         for_loop 0 (FLAGS_trajectory_time_length cfg) (FLAGS_trajectory_time_resolution cfg)
           (\<lambda>t (cost_sqr_sum, cost_abs_sum).
              let jerk = Curve_Evaluate lon_trajectory 3 t;
                  cost = jerk / FLAGS_longitudinal_jerk_upper_bound cfg
              in (cost_sqr_sum + cost * cost, cost_abs_sum + \<bar>cost\<bar>))
           (0, 0);
       Some (cost_sqr_sum / (cost_abs_sum + FLAGS_lattice_epsilon cfg))
     }"

text \<open>
  The loop of \<^verbatim>\<open>LonObjectiveCost\<close> over \<^verbatim>\<open>i < ref_s_dots.size()\<close>: the list is
  walked with the index \<open>i\<close> beside it.
\<close>

fun LonObjectiveCost_loop ::
  "flags \<Rightarrow> Trajectory1d \<Rightarrow> real list \<Rightarrow> nat \<Rightarrow> real \<times> real \<Rightarrow> real \<times> real" where
  "LonObjectiveCost_loop cfg lon_trajectory [] i acc = acc"
| "LonObjectiveCost_loop cfg lon_trajectory (ref_s_dot # ref_s_dots) i
       (speed_cost_sqr_sum, speed_cost_weight_sum) =
     (let t = real i * FLAGS_trajectory_time_resolution cfg;
          cost = ref_s_dot - Curve_Evaluate lon_trajectory 1 t
      in LonObjectiveCost_loop cfg lon_trajectory ref_s_dots (Suc i)
           (speed_cost_sqr_sum + t * t * \<bar>cost\<bar>, speed_cost_weight_sum + t * t))"

text \<open>The locals \<^verbatim>\<open>dist_s\<close> and \<^verbatim>\<open>dist_travelled_cost\<close> of \<^verbatim>\<open>LonObjectiveCost\<close>.\<close>

definition LonObjectiveCost_dist_s :: "Trajectory1d \<Rightarrow> real" where
  "LonObjectiveCost_dist_s lon_trajectory =
     (let t_max = ParamLength lon_trajectory
      in Curve_Evaluate lon_trajectory 0 t_max - Curve_Evaluate lon_trajectory 0 0)"

definition LonObjectiveCost_dist_travelled_cost :: "Trajectory1d \<Rightarrow> real" where
  "LonObjectiveCost_dist_travelled_cost lon_trajectory =
     1 / (1 + LonObjectiveCost_dist_s lon_trajectory)"

definition LonObjectiveCost ::
  "flags \<Rightarrow> Trajectory1d \<Rightarrow> PlanningTarget \<Rightarrow> real list \<Rightarrow> real" where
  "LonObjectiveCost cfg lon_trajectory planning_target ref_s_dots =
     (let (speed_cost_sqr_sum, speed_cost_weight_sum) =
            LonObjectiveCost_loop cfg lon_trajectory ref_s_dots 0 (0, 0);
          speed_cost = speed_cost_sqr_sum / (speed_cost_weight_sum + FLAGS_lattice_epsilon cfg);
          dist_travelled_cost = LonObjectiveCost_dist_travelled_cost lon_trajectory
      in (speed_cost * FLAGS_weight_target_speed cfg +
          dist_travelled_cost * FLAGS_weight_dist_travelled cfg) /
         (FLAGS_weight_target_speed cfg + FLAGS_weight_dist_travelled cfg))"

text \<open>The inner loop of \<^verbatim>\<open>LonCollisionCost\<close>, over the intervals of one time slice.\<close>

fun LonCollisionCost_interval_loop ::
  "flags \<Rightarrow> real \<Rightarrow> (real \<times> real) list \<Rightarrow> real \<times> real \<Rightarrow> real \<times> real" where
  "LonCollisionCost_interval_loop cfg traj_s [] acc = acc"
| "LonCollisionCost_interval_loop cfg traj_s (m # pt_interval) (cost_sqr_sum, cost_abs_sum) =
     (let sigma = FLAGS_lon_collision_cost_std cfg;
          dist =
            (if traj_s < fst m - FLAGS_lon_collision_yield_buffer cfg then
               fst m - FLAGS_lon_collision_yield_buffer cfg - traj_s
             else if traj_s > snd m + FLAGS_lon_collision_overtake_buffer cfg then
               traj_s - snd m - FLAGS_lon_collision_overtake_buffer cfg
             else 0);
          cost = exp (- dist * dist / (2 * sigma * sigma))
      in LonCollisionCost_interval_loop cfg traj_s pt_interval
           (cost_sqr_sum + cost * cost, cost_abs_sum + cost))"

text \<open>The outer loop, over the time slices \<open>i\<close> of \<^verbatim>\<open>path_time_intervals_\<close>.\<close>

fun LonCollisionCost_loop ::
  "flags \<Rightarrow> Trajectory1d \<Rightarrow> (real \<times> real) list list \<Rightarrow> nat \<Rightarrow> real \<times> real \<Rightarrow> real \<times> real" where
  "LonCollisionCost_loop cfg lon_trajectory [] i acc = acc"
| "LonCollisionCost_loop cfg lon_trajectory (pt_interval # intervals) i acc =
     (if pt_interval = [] then LonCollisionCost_loop cfg lon_trajectory intervals (Suc i) acc
      else
        let t = real i * FLAGS_trajectory_time_resolution cfg;
            traj_s = Curve_Evaluate lon_trajectory 0 t
        in LonCollisionCost_loop cfg lon_trajectory intervals (Suc i)
             (LonCollisionCost_interval_loop cfg traj_s pt_interval acc))"

definition LonCollisionCost :: "flags \<Rightarrow> TrajectoryEvaluator \<Rightarrow> Trajectory1d \<Rightarrow> real" where
  "LonCollisionCost cfg this lon_trajectory =
     (let (cost_sqr_sum, cost_abs_sum) =
            LonCollisionCost_loop cfg lon_trajectory (path_time_intervals this) 0 (0, 0)
      in cost_sqr_sum / (cost_abs_sum + FLAGS_lattice_epsilon cfg))"

subsection \<open>The guide velocity\<close>

text \<open>
  Modelled from the spec: the class \<^verbatim>\<open>ConstantAccelerationTrajectory1d\<close> (header
  \<^verbatim>\<open>piecewise_acceleration_trajectory1d.h\<close>) is not among the sources. The spec calls it
  a "piecewise-constant-acceleration profile" built from segments, each with an
  acceleration and a duration, and sampled for its "first derivative (speed)". The
  model keeps the two constructor arguments (start position and start speed) and the
  appended segments \<open>(a, t_duration)\<close> in order. \<open>motion\<close> is the state reached after
  time \<open>dt\<close> under constant acceleration \<open>a\<close>; a parameter beyond the last segment (or
  with no segment at all) is evaluated on the last segment, extended.
\<close>

record ConstantAccelerationTrajectory1d =
  start_s :: real
  start_v :: real
  segments :: "(real \<times> real) list"

definition new_ConstantAccelerationTrajectory1d ::
  "real \<Rightarrow> real \<Rightarrow> ConstantAccelerationTrajectory1d" where
  "new_ConstantAccelerationTrajectory1d s v = \<lparr>start_s = s, start_v = v, segments = []\<rparr>"

definition AppendSegment ::
  "real \<Rightarrow> real \<Rightarrow> ConstantAccelerationTrajectory1d \<Rightarrow> ConstantAccelerationTrajectory1d" where
  "AppendSegment a t_duration traj = traj\<lparr>segments := segments traj @ [(a, t_duration)]\<rparr>"

definition CAT1d_ParamLength :: "ConstantAccelerationTrajectory1d \<Rightarrow> real" where
  "CAT1d_ParamLength traj = sum_list (map snd (segments traj))"

definition motion :: "nat \<Rightarrow> real \<Rightarrow> real \<Rightarrow> real \<Rightarrow> real \<Rightarrow> real" where
  "motion order s0 v0 a dt =
     (if order = 0 then s0 + v0 * dt + a * dt * dt / 2
      else if order = 1 then v0 + a * dt
      else if order = 2 then a
      else 0)"

fun segments_Evaluate ::
  "nat \<Rightarrow> real \<Rightarrow> real \<Rightarrow> real \<Rightarrow> (real \<times> real) list \<Rightarrow> real \<Rightarrow> real" where
  "segments_Evaluate order s0 v0 t0 [] t = motion order s0 v0 0 (t - t0)"
| "segments_Evaluate order s0 v0 t0 ((a, d) # segs) t =
     (if t \<le> t0 + d \<or> segs = [] then motion order s0 v0 a (t - t0)
      else segments_Evaluate order (motion 0 s0 v0 a d) (motion 1 s0 v0 a d) (t0 + d) segs t)"

definition CAT1d_Evaluate :: "ConstantAccelerationTrajectory1d \<Rightarrow> nat \<Rightarrow> real \<Rightarrow> real" where
  "CAT1d_Evaluate traj order param =
     segments_Evaluate order (start_s traj) (start_v traj) 0 (segments traj) param"

text \<open>
  \<^verbatim>\<open>ComputeLongitudinalGuideVelocity\<close> is written in three parts. The first is the
  \<^verbatim>\<open>else\<close> branch of \<^verbatim>\<open>if (!planning_target.has_stop_point())\<close> up to, and without,
  the trailing fill: the local \<^verbatim>\<open>lon_traj\<close> once the stopping segments are appended.
\<close>

definition ComputeLongitudinalGuideVelocity_stop_traj ::
  "flags \<Rightarrow> TrajectoryEvaluator \<Rightarrow> PlanningTarget \<Rightarrow> real \<Rightarrow> ConstantAccelerationTrajectory1d" where
  "ComputeLongitudinalGuideVelocity_stop_traj cfg this planning_target stop_s =
     (let comfort_a = FLAGS_longitudinal_acceleration_lower_bound cfg *
                      FLAGS_comfort_acceleration_factor cfg;
          cruise_s_dot = cruise_speed planning_target;
          lon_traj = new_ConstantAccelerationTrajectory1d (fst (init_s this)) cruise_s_dot;
          dist = stop_s - fst (init_s this);
          stop_a = (if dist > FLAGS_lattice_epsilon cfg
                    then - cruise_s_dot * cruise_s_dot * 0.5 / dist
                    else FLAGS_longitudinal_acceleration_lower_bound cfg)
      in if stop_a > comfort_a then
           let stop_t = cruise_s_dot / (- comfort_a);
               stop_dist = cruise_s_dot * stop_t * 0.5;
               cruise_t = (dist - stop_dist) / cruise_s_dot
           in AppendSegment comfort_a stop_t (AppendSegment 0 cruise_t lon_traj)
         else
           let stop_t = cruise_s_dot / (- stop_a)
           in AppendSegment stop_a stop_t lon_traj)"

text \<open>The second part: the local \<^verbatim>\<open>lon_traj\<close> as it stands when the sampling loop starts.\<close>

definition ComputeLongitudinalGuideVelocity_lon_traj ::
  "flags \<Rightarrow> TrajectoryEvaluator \<Rightarrow> PlanningTarget \<Rightarrow> ConstantAccelerationTrajectory1d" where
  "ComputeLongitudinalGuideVelocity_lon_traj cfg this planning_target =
     (case stop_point_s planning_target of
        None \<Rightarrow>
          AppendSegment 0 (FLAGS_trajectory_time_length cfg)
            (new_ConstantAccelerationTrajectory1d (fst (init_s this))
               (cruise_speed planning_target))
      | Some stop_s \<Rightarrow>
          let lon_traj = ComputeLongitudinalGuideVelocity_stop_traj cfg this planning_target stop_s
          in if CAT1d_ParamLength lon_traj < FLAGS_trajectory_time_length cfg then
               AppendSegment 0
                 (FLAGS_trajectory_time_length cfg - CAT1d_ParamLength lon_traj) lon_traj
             else lon_traj)"

text \<open>The third part: the sampling loop.\<close>

definition ComputeLongitudinalGuideVelocity ::
  "flags \<Rightarrow> TrajectoryEvaluator \<Rightarrow> PlanningTarget \<Rightarrow> real list option" where
  "ComputeLongitudinalGuideVelocity cfg this planning_target =
     (let lon_traj = ComputeLongitudinalGuideVelocity_lon_traj cfg this planning_target
      in for_loop 0 (FLAGS_trajectory_time_length cfg) (FLAGS_trajectory_time_resolution cfg)
           (\<lambda>t reference_s_dot. reference_s_dot @ [CAT1d_Evaluate lon_traj 1 t])
           [])"

subsection \<open>The total cost of a pair\<close>

text \<open>
  \<^verbatim>\<open>Evaluate\<close>. The out-parameter \<^verbatim>\<open>std::vector<double>* cost_components\<close> is an
  \<open>option\<close>: \<open>None\<close> is the null pointer, \<open>Some v\<close> a pointer to a vector holding \<open>v\<close>;
  the vector after the call is returned beside the cost.
\<close>

definition Evaluate ::
  "flags \<Rightarrow> TrajectoryEvaluator \<Rightarrow> PlanningTarget \<Rightarrow> Trajectory1d \<Rightarrow> Trajectory1d \<Rightarrow>
   real list option \<Rightarrow> (real \<times> real list option) option" where
  "Evaluate cfg this planning_target lon_trajectory lat_trajectory cost_components =
     do {
       reference_s_dot \<leftarrow> ComputeLongitudinalGuideVelocity cfg this planning_target;
       let lon_objective_cost =
             LonObjectiveCost cfg lon_trajectory planning_target reference_s_dot;
       lon_jerk_cost \<leftarrow> LonComfortCost cfg lon_trajectory;
       let lon_collision_cost = LonCollisionCost cfg this lon_trajectory;
       let evaluation_horizon =
             min (FLAGS_decision_horizon cfg)
                 (Curve_Evaluate lon_trajectory 0 (ParamLength lon_trajectory));
       s_values \<leftarrow>
         for_loop 0 evaluation_horizon (FLAGS_trajectory_space_resolution cfg)
           (\<lambda>s s_values. s_values @ [s]) [];
       let lat_offset_cost = LatOffsetCost cfg lat_trajectory s_values;
       lat_comfort_cost \<leftarrow> LatComfortCost cfg lon_trajectory lat_trajectory;
       let cost_components' =
             (case cost_components of
                None \<Rightarrow> None
              | Some v \<Rightarrow>
                  Some (v @ [lon_objective_cost, lon_jerk_cost, lon_collision_cost,
                             lat_offset_cost]));
       Some (lon_objective_cost * FLAGS_weight_lon_travel cfg +
             lon_jerk_cost * FLAGS_weight_lon_jerk cfg +
             lon_collision_cost * FLAGS_weight_lon_collision cfg +
             lat_offset_cost * FLAGS_weight_lat_offset cfg +
             lat_comfort_cost * FLAGS_weight_lat_comfort cfg,
             cost_components')
     }"

subsection \<open>The constructor\<close>

text \<open>\<^verbatim>\<open>std::numeric_limits<double>::max()\<close>, the largest finite binary64 number.\<close>

definition DBL_MAX :: real where
  "DBL_MAX = (2 ^ 53 - 1) * 2 ^ 971"

text \<open>
  The inner loop of the constructor, over the lateral candidates. The local vector
  \<^verbatim>\<open>cost_components\<close> starts empty and is handed to \<^verbatim>\<open>Evaluate\<close> by address.
\<close>

fun ctor_lat_loop ::
  "flags \<Rightarrow> PlanningTarget \<Rightarrow> Trajectory1d \<Rightarrow> Trajectory1d list \<Rightarrow> TrajectoryEvaluator \<Rightarrow>
   TrajectoryEvaluator option" where
  "ctor_lat_loop cfg planning_target lon_trajectory [] this = Some this"
| "ctor_lat_loop cfg planning_target lon_trajectory (lat_trajectory # lat_trajectories) this =
     (if \<not> FLAGS_enable_auto_tuning cfg then
        do {
          (cost, _) \<leftarrow> Evaluate cfg this planning_target lon_trajectory lat_trajectory None;
          ctor_lat_loop cfg planning_target lon_trajectory lat_trajectories
            (this\<lparr>cost_queue :=
                    pq_push ((lon_trajectory, lat_trajectory), cost) (cost_queue this)\<rparr>)
        }
      else
        do {
          (cost, cost_components) \<leftarrow>
            Evaluate cfg this planning_target lon_trajectory lat_trajectory (Some []);
          ctor_lat_loop cfg planning_target lon_trajectory lat_trajectories
            (this\<lparr>cost_queue_with_components :=
                    pq_push ((lon_trajectory, lat_trajectory),
                             (case cost_components of None \<Rightarrow> [] | Some v \<Rightarrow> v, cost))
                      (cost_queue_with_components this)\<rparr>)
        })"

text \<open>
  The outer loop, over the longitudinal candidates.
  \<^verbatim>\<open>ConstraintChecker1d::IsValidLongitudinalTrajectory\<close> is defined outside this file and
  is the parameter \<open>IsValidLongitudinalTrajectory\<close>.
\<close>

fun ctor_lon_loop ::
  "flags \<Rightarrow> (Trajectory1d \<Rightarrow> bool) \<Rightarrow> PlanningTarget \<Rightarrow> real \<Rightarrow> real \<Rightarrow>
   Trajectory1d list \<Rightarrow> Trajectory1d list \<Rightarrow> TrajectoryEvaluator \<Rightarrow>
   TrajectoryEvaluator option" where
  "ctor_lon_loop cfg IsValidLongitudinalTrajectory planning_target stop_point end_time
       lat_trajectories [] this = Some this"
| "ctor_lon_loop cfg IsValidLongitudinalTrajectory planning_target stop_point end_time
       lat_trajectories (lon_trajectory # lon_trajectories) this =
     (let lon_end_s = Curve_Evaluate lon_trajectory 0 end_time
      in if lon_end_s > stop_point then
           ctor_lon_loop cfg IsValidLongitudinalTrajectory planning_target stop_point end_time
             lat_trajectories lon_trajectories this
         else if \<not> IsValidLongitudinalTrajectory lon_trajectory then
           ctor_lon_loop cfg IsValidLongitudinalTrajectory planning_target stop_point end_time
             lat_trajectories lon_trajectories this
         else
           do {
             this' \<leftarrow> ctor_lat_loop cfg planning_target lon_trajectory lat_trajectories this;
             ctor_lon_loop cfg IsValidLongitudinalTrajectory planning_target stop_point end_time
               lat_trajectories lon_trajectories this'
           })"

definition new_TrajectoryEvaluator ::
  "flags \<Rightarrow> (Trajectory1d \<Rightarrow> bool) \<Rightarrow> real \<times> real \<times> real \<Rightarrow> PlanningTarget \<Rightarrow>
   Trajectory1d list \<Rightarrow> Trajectory1d list \<Rightarrow> PathTimeGraph \<Rightarrow> TrajectoryEvaluator option" where
  "new_TrajectoryEvaluator cfg IsValidLongitudinalTrajectory init_s_arg planning_target
       lon_trajectories lat_trajectories path_time_graph_arg =
     (let start_time = 0;
          end_time = FLAGS_trajectory_time_length cfg;
          this = \<lparr>path_time_graph = path_time_graph_arg,
                  init_s = init_s_arg,
                  path_time_intervals =
                    GetPathBlockingIntervals path_time_graph_arg start_time end_time
                      (FLAGS_trajectory_time_resolution cfg),
                  cost_queue = [],
                  cost_queue_with_components = []\<rparr>;
          stop_point = (case stop_point_s planning_target of
                          None \<Rightarrow> DBL_MAX
                        | Some s \<Rightarrow> s)
      in ctor_lon_loop cfg IsValidLongitudinalTrajectory planning_target stop_point end_time
           lat_trajectories lon_trajectories this)"

subsection \<open>Reading the store\<close>

text \<open>
  The entries of the queue in use, each as its pair and its total cost, and the caller's
  loop of the spec: while a pair remains, read the cost of the best one and take it, at
  most \<open>n\<close> times. The list is the pairs taken, in order, each with the cost read
  just before.
\<close>

definition store_entries :: "flags \<Rightarrow> TrajectoryEvaluator \<Rightarrow> (TrajectoryPair \<times> real) list" where
  "store_entries cfg this =
     (if \<not> FLAGS_enable_auto_tuning cfg then cost_queue this
      else map (\<lambda>e. (fst e, snd (snd e))) (cost_queue_with_components this))"

fun take_best_calls ::
  "flags \<Rightarrow> nat \<Rightarrow> TrajectoryEvaluator \<Rightarrow> (TrajectoryPair \<times> real) list" where
  "take_best_calls cfg 0 this = []"
| "take_best_calls cfg (Suc n) this =
     (if has_more_trajectory_pairs cfg this then
        (case (top_trajectory_pair_cost cfg this, next_top_trajectory_pair cfg this) of
           (Inr cost, Inr (pair, this')) \<Rightarrow> (pair, cost) # take_best_calls cfg n this'
         | _ \<Rightarrow> [])
      else [])"

subsection \<open>The lateral offset cost, as the spec words it\<close>

text \<open>
  The ratio of the weighted sum of squares to the weighted sum of absolute values
  (plus \<open>\<epsilon>\<close>) of the normalised offsets, the sample at \<open>s\<close> weighted with \<open>w s\<close>; and the
  weight the source gives the sample at \<open>s\<close>.
\<close>

definition LatOffsetCost_with_weights ::
  "flags \<Rightarrow> Trajectory1d \<Rightarrow> (real \<Rightarrow> real) \<Rightarrow> real list \<Rightarrow> real" where
  "LatOffsetCost_with_weights cfg lat_trajectory w s_values =
     (\<Sum>s\<leftarrow>s_values. (Curve_Evaluate lat_trajectory 0 s / FLAGS_lat_offset_bound cfg) *
                       (Curve_Evaluate lat_trajectory 0 s / FLAGS_lat_offset_bound cfg) * w s) /
     ((\<Sum>s\<leftarrow>s_values. \<bar>Curve_Evaluate lat_trajectory 0 s / FLAGS_lat_offset_bound cfg\<bar> * w s) +
      FLAGS_lattice_epsilon cfg)"

definition side_weight :: "flags \<Rightarrow> Trajectory1d \<Rightarrow> real \<Rightarrow> real" where
  "side_weight cfg lat_trajectory s =
     (if Curve_Evaluate lat_trajectory 0 s * Curve_Evaluate lat_trajectory 0 0 < 0
      then FLAGS_weight_opposite_side_offset cfg
      else FLAGS_weight_same_side_offset cfg)"

subsection \<open>What the constructor records\<close>

text \<open>
  The invariant of the constructor's loops in component-tracking mode: the evaluator has
  the initial state and the blocking intervals of \<open>base\<close>, and every entry of its queue
  holds the cost and the component vector that \<^verbatim>\<open>Evaluate\<close> returns for the entry's pair.
\<close>

definition records_Evaluate ::
  "flags \<Rightarrow> TrajectoryEvaluator \<Rightarrow> PlanningTarget \<Rightarrow> TrajectoryEvaluator \<Rightarrow> bool" where
  "records_Evaluate cfg base planning_target ev =
     (init_s ev = init_s base \<and> path_time_intervals ev = path_time_intervals base \<and>
      list_all (\<lambda>e. Evaluate cfg base planning_target (fst (fst e)) (snd (fst e)) (Some []) =
                       Some (snd (snd e), Some (fst (snd e))))
        (cost_queue_with_components ev))"

subsection \<open>Concrete inputs\<close>

text \<open>
  A set of flag values with a horizon of two time steps, cubic curves
  \<open>x0 + v p + a p\<^sup>2 + j p\<^sup>3\<close> with their derivatives, and two obstacle maps.
\<close>

definition demo_flags :: flags where
  "demo_flags =
     \<lparr>FLAGS_trajectory_time_length = 1,
      FLAGS_trajectory_time_resolution = 1 / 2,
      FLAGS_trajectory_space_resolution = 1,
      FLAGS_decision_horizon = 2,
      FLAGS_enable_auto_tuning = False,
      FLAGS_weight_lon_travel = 1,
      FLAGS_weight_lon_jerk = 2,
      FLAGS_weight_lon_collision = 3,
      FLAGS_weight_lat_offset = 4,
      FLAGS_weight_lat_comfort = 5,
      FLAGS_lat_offset_bound = 1,
      FLAGS_weight_opposite_side_offset = 10,
      FLAGS_weight_same_side_offset = 1,
      FLAGS_lattice_epsilon = 1,
      FLAGS_longitudinal_jerk_upper_bound = 4,
      FLAGS_weight_target_speed = 1,
      FLAGS_weight_dist_travelled = 1,
      FLAGS_lon_collision_cost_std = 1 / 2,
      FLAGS_lon_collision_yield_buffer = 1,
      FLAGS_lon_collision_overtake_buffer = 5,
      FLAGS_longitudinal_acceleration_lower_bound = - 6,
      FLAGS_comfort_acceleration_factor = 1 / 2\<rparr>"

definition demo_tuning_flags :: flags where
  "demo_tuning_flags = demo_flags\<lparr>FLAGS_enable_auto_tuning := True\<rparr>"

definition cubic_curve :: "real \<Rightarrow> real \<Rightarrow> real \<Rightarrow> real \<Rightarrow> real \<Rightarrow> Curve1d" where
  "cubic_curve x0 v a j len =
     \<lparr>Curve_Evaluate =
        (\<lambda>order p. if order = 0 then x0 + v * p + a * p * p + j * p * p * p
                   else if order = 1 then v + 2 * a * p + 3 * j * p * p
                   else if order = 2 then 2 * a + 6 * j * p
                   else if order = 3 then 6 * j
                   else 0),
      ParamLength = len\<rparr>"

definition free_road :: PathTimeGraph where
  "free_road = \<lparr>GetPathBlockingIntervals = (\<lambda>start_time end_time resolution. [[], []])\<rparr>"

definition blocked_road :: PathTimeGraph where
  "blocked_road =
     \<lparr>GetPathBlockingIntervals = (\<lambda>start_time end_time resolution. [[], [(0, 3)]])\<rparr>"

definition demo_target :: PlanningTarget where
  "demo_target = \<lparr>cruise_speed = 10, stop_point_s = Some 10\<rparr>"

definition demo_evaluator :: "PathTimeGraph \<Rightarrow> TrajectoryEvaluator" where
  "demo_evaluator graph =
     \<lparr>path_time_graph = graph, init_s = (0, 5, 0),
      path_time_intervals = GetPathBlockingIntervals graph 0 1 (1 / 2),
      cost_queue = [], cost_queue_with_components = []\<rparr>"

definition cruise_target :: PlanningTarget where
  "cruise_target = \<lparr>cruise_speed = 10, stop_point_s = None\<rparr>"

text \<open>
  Longitudinal candidates over one second: \<open>12 t\<close> (reaches 12), \<open>2 t + t\<^sup>3\<close> (reaches 3)
  and \<open>- 2 t\<close> (moves backwards by 2). Lateral candidates: \<open>2 - s\<close>, and \<open>s\<^sup>2 - 2 s\<close>, which
  starts on the reference line and is first on one side of it, then on the other.
\<close>

definition fast_lon :: Trajectory1d where
  "fast_lon = cubic_curve 0 12 0 0 1"

definition slow_lon :: Trajectory1d where
  "slow_lon = cubic_curve 0 2 0 1 1"

definition backing_lon :: Trajectory1d where
  "backing_lon = cubic_curve 0 (- 2) 0 0 1"

definition demo_lat :: Trajectory1d where
  "demo_lat = cubic_curve 2 (- 1) 0 0 0"

definition crossing_lat :: Trajectory1d where
  "crossing_lat = cubic_curve 0 (- 2) 1 0 0"

text \<open>An evaluator whose store holds three pairs, pushed with the costs 3, 1 and 2.\<close>

definition demo_store :: TrajectoryEvaluator where
  "demo_store =
     (demo_evaluator free_road)
       \<lparr>cost_queue := [((fast_lon, demo_lat), 3), ((slow_lon, demo_lat), 1),
                       ((slow_lon, crossing_lat), 2)]\<rparr>"

section \<open>Properties\<close>

text \<open>The definitions that an evaluation at a concrete input unfolds.\<close>

lemmas demo_defs = demo_flags_def demo_tuning_flags_def cubic_curve_def free_road_def
  blocked_road_def demo_target_def demo_evaluator_def cruise_target_def fast_lon_def
  slow_lon_def backing_lon_def demo_lat_def crossing_lat_def demo_store_def

lemmas queue_defs = has_more_trajectory_pairs_def num_of_trajectory_pairs_def
  next_top_trajectory_pair_def top_trajectory_pair_cost_def
  top_trajectory_pair_component_cost_def pq_top_def pq_pop_def pq_empty_def pq_size_def
  pq_push_def CostComparator_def CostComponentComparator_def store_entries_def

lemmas cost_defs = Evaluate_def ComputeLongitudinalGuideVelocity_def
  ComputeLongitudinalGuideVelocity_lon_traj_def ComputeLongitudinalGuideVelocity_stop_traj_def
  for_loop.simps AppendSegment_def new_ConstantAccelerationTrajectory1d_def
  CAT1d_ParamLength_def CAT1d_Evaluate_def motion_def LonObjectiveCost_def
  LonObjectiveCost_dist_travelled_cost_def LonObjectiveCost_dist_s_def LonComfortCost_def
  LonCollisionCost_def LatOffsetCost_def LatComfortCost_def Let_def

subsection \<open>Loops over a real-valued counter\<close>

lemma loop_count_done: "0 < step \<Longrightarrow> \<not> t < bound \<Longrightarrow> loop_count t bound step = 0"
  by (simp add: loop_count_def divide_nonpos_pos)

lemma loop_count_step:
  assumes "0 < step" "t < bound"
  shows "loop_count t bound step = Suc (loop_count (t + step) bound step)"
proof -
  have e: "(bound - (t + step)) / step = (bound - t) / step - 1"
    using assms by (simp add: field_simps)
  have "0 < (bound - t) / step" using assms by simp
  then have "0 < \<lceil>(bound - t) / step\<rceil>" by linarith
  then show ?thesis
    unfolding loop_count_def e by (simp add: nat_diff_distrib' Suc_nat_eq_nat_zadd1)
qed

lemma loop_points_done: "0 < step \<Longrightarrow> \<not> t < bound \<Longrightarrow> loop_points t bound step = []"
  by (simp add: loop_points_def loop_count_done)

lemma loop_points_step:
  assumes "0 < step" "t < bound"
  shows "loop_points t bound step = t # loop_points (t + step) bound step"
proof -
  have "[0..<Suc (loop_count (t + step) bound step)]
        = 0 # map Suc [0..<loop_count (t + step) bound step]"
    by (simp add: upt_conv_Cons map_Suc_upt del: upt_Suc)
  then show ?thesis
    unfolding loop_points_def loop_count_step [OF assms]
    by (simp add: algebra_simps del: upt_Suc)
qed

lemma for_loop_fold:
  assumes "0 < step"
  shows "for_loop t bound step body acc = Some (fold body (loop_points t bound step) acc)"
proof (induction "loop_count t bound step" arbitrary: t acc)
  case 0
  then have "\<not> t < bound"
    using loop_count_step [OF assms] by fastforce
  then show ?case
    using assms by (subst for_loop.simps) (simp add: loop_points_done)
next
  case (Suc n)
  then have lt: "t < bound"
    using loop_count_done [OF assms] by fastforce
  then have "n = loop_count (t + step) bound step"
    using Suc.hyps(2) loop_count_step [OF assms lt] by simp
  then have "for_loop (t + step) bound step body (body t acc)
             = Some (fold body (loop_points (t + step) bound step) (body t acc))"
    by (rule Suc.hyps(1))
  then show ?case
    using lt by (subst for_loop.simps) (simp add: loop_points_step [OF assms lt])
qed

lemma loop_points_range:
  assumes "0 < step" "p \<in> set (loop_points 0 bound step)"
  shows "0 \<le> p \<and> p < bound"
proof -
  from assms(2) obtain k where k: "k < loop_count 0 bound step" and p: "p = real k * step"
    by (auto simp: loop_points_def)
  from k have "int k < \<lceil>bound / step\<rceil>" by (simp add: loop_count_def)
  then have "real k < bound / step" by linarith
  then have "real k * step < bound" using assms(1) by (simp add: field_simps)
  then show ?thesis using p assms(1) by simp
qed

subsection \<open>The ranked store\<close>

lemma pq_extract_None: "pq_extract cmp q = None \<longleftrightarrow> q = []"
  by (cases q) (auto split: option.splits)

lemma pq_extract_mset:
  "pq_extract cmp q = Some (b, rest) \<Longrightarrow> mset q = add_mset b (mset rest)"
proof (induction q arbitrary: b rest)
  case Nil
  then show ?case by simp
next
  case (Cons x xs)
  then show ?case
    by (auto simp: pq_extract_None split: option.splits if_splits)
qed

lemma pq_extract_least:
  fixes key :: "'a \<Rightarrow> real"
  assumes cmp: "\<And>l r. cmp l r = (key l > key r)"
  shows "pq_extract cmp q = Some (b, rest) \<Longrightarrow> y \<in> set q \<Longrightarrow> key b \<le> key y"
proof (induction q arbitrary: b rest y)
  case Nil
  then show ?case by simp
next
  case (Cons x xs)
  show ?case
  proof (cases "pq_extract cmp xs")
    case None
    then have "xs = []" by (simp add: pq_extract_None)
    with Cons.prems None show ?thesis by simp
  next
    case (Some r)
    obtain b' rest' where r: "r = (b', rest')" by (cases r)
    have ih: "\<And>z. z \<in> set xs \<Longrightarrow> key b' \<le> key z"
      using Cons.IH Some r by blast
    show ?thesis
    proof (cases "cmp x b'")
      case True
      then have "b = b'" using Cons.prems(1) Some r by simp
      moreover have "key b' \<le> key x" using True cmp by simp
      ultimately show ?thesis using Cons.prems(2) ih by auto
    next
      case False
      then have "b = x" using Cons.prems(1) Some r by simp
      moreover have "key x \<le> key b'" using False cmp by simp
      ultimately show ?thesis using Cons.prems(2) ih by fastforce
    qed
  qed
qed

lemma take_best_step:
  assumes "has_more_trajectory_pairs cfg ev"
  shows "\<exists>pair cost ev'.
           top_trajectory_pair_cost cfg ev = Inr cost \<and>
           next_top_trajectory_pair cfg ev = Inr (pair, ev') \<and>
           mset (store_entries cfg ev) = add_mset (pair, cost) (mset (store_entries cfg ev')) \<and>
           (\<forall>e \<in> set (store_entries cfg ev). cost \<le> snd e)"
proof (cases "FLAGS_enable_auto_tuning cfg")
  case False
  with assms have "cost_queue ev \<noteq> []"
    by (simp add: has_more_trajectory_pairs_def pq_empty_def)
  then obtain b rest where ex: "pq_extract CostComparator (cost_queue ev) = Some (b, rest)"
    using pq_extract_None [of CostComparator "cost_queue ev"] by fastforce
  have least: "\<And>e. e \<in> set (cost_queue ev) \<Longrightarrow> snd b \<le> snd e"
    using pq_extract_least [of CostComparator snd, OF _ ex] by (simp add: CostComparator_def)
  show ?thesis
    using False assms ex pq_extract_mset [OF ex] least
    by (cases b)
      (simp add: top_trajectory_pair_cost_def next_top_trajectory_pair_def store_entries_def
        pq_top_def pq_pop_def)
next
  case True
  let ?f = "\<lambda>e::PairCostWithComponents. (fst e, snd (snd e))"
  from True assms have "cost_queue_with_components ev \<noteq> []"
    by (simp add: has_more_trajectory_pairs_def pq_empty_def)
  then obtain b rest where
    ex: "pq_extract CostComponentComparator (cost_queue_with_components ev) = Some (b, rest)"
    using pq_extract_None [of CostComponentComparator "cost_queue_with_components ev"]
    by fastforce
  have least: "\<And>e. e \<in> set (cost_queue_with_components ev) \<Longrightarrow> snd (snd b) \<le> snd (snd e)"
    using pq_extract_least [of CostComponentComparator "\<lambda>e. snd (snd e)", OF _ ex]
    by (simp add: CostComponentComparator_def)
  have "mset (map ?f (cost_queue_with_components ev)) = add_mset (?f b) (mset (map ?f rest))"
    using pq_extract_mset [OF ex] by simp
  then show ?thesis
    using True assms ex least
    by (simp add: top_trajectory_pair_cost_def next_top_trajectory_pair_def store_entries_def
        pq_top_def pq_pop_def)
qed

lemma take_best_calls_subset:
  "set (take_best_calls cfg n ev) \<subseteq> set (store_entries cfg ev)"
proof (induction n arbitrary: ev)
  case 0
  then show ?case by simp
next
  case (Suc n)
  show ?case
  proof (cases "has_more_trajectory_pairs cfg ev")
    case False
    then show ?thesis by simp
  next
    case True
    from take_best_step [OF True] obtain pair cost ev' where
      s: "top_trajectory_pair_cost cfg ev = Inr cost"
         "next_top_trajectory_pair cfg ev = Inr (pair, ev')"
         "mset (store_entries cfg ev) = add_mset (pair, cost) (mset (store_entries cfg ev'))"
      by blast
    have "set (store_entries cfg ev) = insert (pair, cost) (set (store_entries cfg ev'))"
      using s(3) by (metis set_mset_add_mset_insert set_mset_mset)
    then show ?thesis
      using True s(1,2) Suc.IH [of ev'] by auto
  qed
qed

lemma take_best_calls_sorted: "sorted (map snd (take_best_calls cfg n ev))"
proof (induction n arbitrary: ev)
  case 0
  then show ?case by simp
next
  case (Suc n)
  show ?case
  proof (cases "has_more_trajectory_pairs cfg ev")
    case False
    then show ?thesis by simp
  next
    case True
    from take_best_step [OF True] obtain pair cost ev' where
      s: "top_trajectory_pair_cost cfg ev = Inr cost"
         "next_top_trajectory_pair cfg ev = Inr (pair, ev')"
         "mset (store_entries cfg ev) = add_mset (pair, cost) (mset (store_entries cfg ev'))"
         "\<forall>e \<in> set (store_entries cfg ev). cost \<le> snd e"
      by blast
    have sub: "set (store_entries cfg ev') \<subseteq> set (store_entries cfg ev)"
      using s(3) by (metis set_mset_add_mset_insert set_mset_mset subset_insertI)
    have "\<forall>e \<in> set (take_best_calls cfg n ev'). cost \<le> snd e"
      using s(4) sub take_best_calls_subset [of cfg n ev'] by blast
    then show ?thesis
      using True s(1,2) Suc.IH [of ev'] by simp
  qed
qed

lemma take_best_calls_all:
  "num_of_trajectory_pairs cfg ev \<le> n \<Longrightarrow>
   mset (take_best_calls cfg n ev) = mset (store_entries cfg ev)"
proof (induction n arbitrary: ev)
  case 0
  then show ?case
    by (simp add: num_of_trajectory_pairs_def store_entries_def pq_size_def split: if_splits)
next
  case (Suc n)
  have len: "\<And>e. num_of_trajectory_pairs cfg e = length (store_entries cfg e)"
    by (simp add: num_of_trajectory_pairs_def store_entries_def pq_size_def)
  show ?case
  proof (cases "has_more_trajectory_pairs cfg ev")
    case False
    then show ?thesis
      by (simp add: has_more_trajectory_pairs_def store_entries_def pq_empty_def split: if_splits)
  next
    case True
    from take_best_step [OF True] obtain pair cost ev' where
      s: "top_trajectory_pair_cost cfg ev = Inr cost"
         "next_top_trajectory_pair cfg ev = Inr (pair, ev')"
         "mset (store_entries cfg ev) = add_mset (pair, cost) (mset (store_entries cfg ev'))"
      by blast
    have "length (store_entries cfg ev) = Suc (length (store_entries cfg ev'))"
      using s(3) by (metis size_add_mset size_mset)
    then have "num_of_trajectory_pairs cfg ev' \<le> n"
      using Suc.prems len by simp
    then show ?thesis
      using True s Suc.IH [of ev'] by simp
  qed
qed

text \<open>
  Claim C1. While a pair remains, \<^verbatim>\<open>next_top_trajectory_pair\<close> returns a pair of the store
  whose total cost (the one \<^verbatim>\<open>top_trajectory_pair_cost\<close> reads just before) is at most
  the total cost of every entry of the store, and removes that entry and no other; the
  costs of the pairs taken by successive calls are in non-decreasing order; and as many
  calls as the store has entries take every entry.
\<close>

theorem take_best_minimum_ascending:
  "(has_more_trajectory_pairs cfg ev \<longrightarrow>
      (\<exists>pair cost ev'.
         top_trajectory_pair_cost cfg ev = Inr cost \<and>
         next_top_trajectory_pair cfg ev = Inr (pair, ev') \<and>
         mset (store_entries cfg ev) = add_mset (pair, cost) (mset (store_entries cfg ev')) \<and>
         (\<forall>e \<in> set (store_entries cfg ev). cost \<le> snd e))) \<and>
   sorted (map snd (take_best_calls cfg n ev)) \<and>
   mset (take_best_calls cfg (num_of_trajectory_pairs cfg ev) ev) = mset (store_entries cfg ev)"
  using take_best_step [of cfg ev] take_best_calls_sorted [of cfg n ev]
    take_best_calls_all [of cfg ev "num_of_trajectory_pairs cfg ev"]
  by blast

text \<open>A store filled with the costs 3, 1 and 2 gives its pairs back with the costs 1, 2, 3.\<close>

theorem take_best_minimum_ascending_witness:
  "has_more_trajectory_pairs demo_flags demo_store \<and>
   top_trajectory_pair_cost demo_flags demo_store = Inr 1 \<and>
   map snd (take_best_calls demo_flags 3 demo_store) = [1, 2, 3] \<and>
   sorted (map snd (take_best_calls demo_flags 3 demo_store))"
  using take_best_minimum_ascending [of demo_flags demo_store 3]
  by (simp add: demo_defs queue_defs numeral_3_eq_3)

subsection \<open>Cost terms and fail-fast checks\<close>

lemma LatOffsetCost_loop_sums:
  "LatOffsetCost_loop cfg lat (Curve_Evaluate lat 0 0) s_values (a, b) =
     (a + (\<Sum>s\<leftarrow>s_values. (Curve_Evaluate lat 0 s / FLAGS_lat_offset_bound cfg) *
                       (Curve_Evaluate lat 0 s / FLAGS_lat_offset_bound cfg) * side_weight cfg lat s),
      b + (\<Sum>s\<leftarrow>s_values. \<bar>Curve_Evaluate lat 0 s / FLAGS_lat_offset_bound cfg\<bar> * side_weight cfg lat s))"
  by (induction s_values arbitrary: a b) (simp_all add: side_weight_def Let_def)

lemma LatOffsetCost_weights:
  "LatOffsetCost cfg lat s_values = LatOffsetCost_with_weights cfg lat (side_weight cfg lat) s_values"
  by (simp add: LatOffsetCost_def LatOffsetCost_with_weights_def LatOffsetCost_loop_sums)

text \<open>
  Claim C10. \<^verbatim>\<open>LatOffsetCost\<close> weights the sample at \<open>s\<close> with the opposite-side weight
  when the product of the offset at \<open>s\<close> and the offset at 0 is strictly negative, and with
  the same-side weight otherwise; so when the offset at 0 is exactly zero, every sample
  has the same-side weight, whichever side it is on.
\<close>

theorem LatOffsetCost_start_zero_same_side:
  "LatOffsetCost cfg lat s_values =
     LatOffsetCost_with_weights cfg lat
       (\<lambda>s. if Curve_Evaluate lat 0 s * Curve_Evaluate lat 0 0 < 0
            then FLAGS_weight_opposite_side_offset cfg
            else FLAGS_weight_same_side_offset cfg) s_values \<and>
   (Curve_Evaluate lat 0 0 = 0 \<longrightarrow>
      LatOffsetCost cfg lat s_values =
        LatOffsetCost_with_weights cfg lat (\<lambda>s. FLAGS_weight_same_side_offset cfg) s_values)"
proof -
  have "side_weight cfg lat = (\<lambda>s. if Curve_Evaluate lat 0 s * Curve_Evaluate lat 0 0 < 0
            then FLAGS_weight_opposite_side_offset cfg
            else FLAGS_weight_same_side_offset cfg)"
    by (rule ext) (simp add: side_weight_def)
  moreover have "Curve_Evaluate lat 0 0 = 0 \<Longrightarrow>
      side_weight cfg lat = (\<lambda>s. FLAGS_weight_same_side_offset cfg)"
    by (rule ext) (simp add: side_weight_def)
  ultimately show ?thesis
    using LatOffsetCost_weights [of cfg lat s_values] by auto
qed

text \<open>The lateral candidate \<open>s\<^sup>2 - 2 s\<close> starts on the reference line, is at \<open>- 1\<close> for \<open>s = 1\<close> and
  at \<open>3\<close> for \<open>s = 3\<close>: both samples get the same-side weight 1, none the opposite-side
  weight 10.\<close>

theorem LatOffsetCost_start_zero_same_side_witness:
  "Curve_Evaluate crossing_lat 0 0 = 0 \<and>
   Curve_Evaluate crossing_lat 0 1 = - 1 \<and>
   Curve_Evaluate crossing_lat 0 3 = 3 \<and>
   LatOffsetCost demo_flags crossing_lat [0, 1, 3] = 2 \<and>
   LatOffsetCost_with_weights demo_flags crossing_lat
     (\<lambda>s. FLAGS_weight_same_side_offset demo_flags) [0, 1, 3] = 2"
  using LatOffsetCost_start_zero_same_side [of demo_flags crossing_lat "[0, 1, 3]"]
  by (simp add: demo_defs LatOffsetCost_with_weights_def)

lemma LonCollisionCost_loop_empty:
  "\<forall>pt_interval \<in> set intervals. pt_interval = [] \<Longrightarrow>
   LonCollisionCost_loop cfg lon intervals i acc = acc"
  by (induction intervals arbitrary: i) simp_all

text \<open>
  Claim C5. When every time slice of \<^verbatim>\<open>path_time_intervals_\<close> is empty,
  \<^verbatim>\<open>LonCollisionCost\<close> is 0 for every longitudinal candidate. The returned value is
  \<open>0 / (0 + \<epsilon>)\<close>, hence the hypothesis that \<open>\<epsilon>\<close> is not zero.
\<close>

theorem LonCollisionCost_no_obstacles:
  assumes "\<forall>pt_interval \<in> set (path_time_intervals ev). pt_interval = []"
    and "FLAGS_lattice_epsilon cfg \<noteq> 0"
  shows "LonCollisionCost cfg ev lon_trajectory = 0"
  using assms(1) by (simp add: LonCollisionCost_def LonCollisionCost_loop_empty)

text \<open>On the obstacle map with two empty time slices.\<close>

theorem LonCollisionCost_no_obstacles_witness:
  "path_time_intervals (demo_evaluator free_road) = [[], []] \<and>
   FLAGS_lattice_epsilon demo_flags \<noteq> 0 \<and>
   LonCollisionCost demo_flags (demo_evaluator free_road) slow_lon = 0"
  using LonCollisionCost_no_obstacles [of "demo_evaluator free_road" demo_flags slow_lon]
  by (simp add: demo_defs)

text \<open>
  Claim C8, as amended. The distance term of \<^verbatim>\<open>LonObjectiveCost\<close> is \<open>1 / (1 + \<Delta>s)\<close>,
  \<open>\<Delta>s\<close> being the displacement of the candidate over its own parameter domain; it is
  positive whenever \<open>\<Delta>s > - 1\<close> (so for every candidate that does not move backwards),
  and it is as close to 0 as one likes for every candidate whose displacement is large
  enough.
\<close>

theorem dist_travelled_cost_formula:
  "LonObjectiveCost_dist_travelled_cost lon =
     1 / (1 + (Curve_Evaluate lon 0 (ParamLength lon) - Curve_Evaluate lon 0 0)) \<and>
   (- 1 < LonObjectiveCost_dist_s lon \<longrightarrow> 0 < LonObjectiveCost_dist_travelled_cost lon) \<and>
   (\<forall>e > 0. \<exists>D. \<forall>lon'. D \<le> LonObjectiveCost_dist_s lon' \<longrightarrow>
        \<bar>LonObjectiveCost_dist_travelled_cost lon'\<bar> < e)"
proof (intro conjI allI impI)
  show "LonObjectiveCost_dist_travelled_cost lon =
     1 / (1 + (Curve_Evaluate lon 0 (ParamLength lon) - Curve_Evaluate lon 0 0))"
    by (simp add: LonObjectiveCost_dist_travelled_cost_def LonObjectiveCost_dist_s_def)
next
  assume "- 1 < LonObjectiveCost_dist_s lon"
  then show "0 < LonObjectiveCost_dist_travelled_cost lon"
    by (simp add: LonObjectiveCost_dist_travelled_cost_def)
next
  fix e :: real
  assume e: "0 < e"
  have "\<forall>lon'. 1 / e \<le> LonObjectiveCost_dist_s lon' \<longrightarrow>
          \<bar>LonObjectiveCost_dist_travelled_cost lon'\<bar> < e"
  proof (intro allI impI)
    fix lon'
    assume d: "1 / e \<le> LonObjectiveCost_dist_s lon'"
    have pos: "0 < 1 / e" using e by simp
    then have "1 / e < 1 + LonObjectiveCost_dist_s lon'" using d by linarith
    then have "1 < e * (1 + LonObjectiveCost_dist_s lon')"
      using e by (simp add: field_simps)
    moreover have "0 < 1 + LonObjectiveCost_dist_s lon'" using pos d by linarith
    ultimately have "1 / (1 + LonObjectiveCost_dist_s lon') < e"
      by (simp add: field_simps)
    moreover have "0 < 1 / (1 + LonObjectiveCost_dist_s lon')"
      using \<open>0 < 1 + LonObjectiveCost_dist_s lon'\<close> by simp
    ultimately show "\<bar>LonObjectiveCost_dist_travelled_cost lon'\<bar> < e"
      by (simp add: LonObjectiveCost_dist_travelled_cost_def)
  qed
  then show "\<exists>D. \<forall>lon'. D \<le> LonObjectiveCost_dist_s lon' \<longrightarrow>
          \<bar>LonObjectiveCost_dist_travelled_cost lon'\<bar> < e" ..
qed

text \<open>The claim as the spec states it, "never negative", fails for a candidate that moves
  backwards by more than 1: for \<open>- 2 t\<close> over one second the term is \<open>1 / (1 - 2) = - 1\<close>.\<close>

theorem dist_travelled_cost_negative:
  "LonObjectiveCost_dist_s backing_lon = - 2 \<and>
   LonObjectiveCost_dist_travelled_cost backing_lon = - 1 \<and>
   LonObjectiveCost_dist_travelled_cost backing_lon < 0"
  by (simp add: demo_defs LonObjectiveCost_dist_travelled_cost_def LonObjectiveCost_dist_s_def)

text \<open>For \<open>2 t + t\<^sup>3\<close> over one second the displacement is 3 and the term \<open>1 / 4\<close>.\<close>

theorem dist_travelled_cost_formula_witness:
  "- 1 < LonObjectiveCost_dist_s slow_lon \<and>
   LonObjectiveCost_dist_s slow_lon = 3 \<and>
   LonObjectiveCost_dist_travelled_cost slow_lon = 1 / 4 \<and>
   0 < LonObjectiveCost_dist_travelled_cost slow_lon"
  using dist_travelled_cost_formula [of slow_lon]
  by (simp add: demo_defs LonObjectiveCost_dist_s_def)

text \<open>
  Claim C7. \<^verbatim>\<open>next_top_trajectory_pair\<close> aborts on its \<^verbatim>\<open>CHECK\<close> exactly when no pair
  remains, \<^verbatim>\<open>top_trajectory_pair_component_cost\<close> aborts on its \<^verbatim>\<open>CHECK\<close> exactly when
  \<^verbatim>\<open>FLAGS_enable_auto_tuning\<close> is off, and \<^verbatim>\<open>next_top_trajectory_pair\<close> never reads the
  top of an empty queue.
\<close>

theorem fail_fast_checks:
  "(next_top_trajectory_pair cfg ev = Inl CheckFailed \<longleftrightarrow> \<not> has_more_trajectory_pairs cfg ev) \<and>
   (top_trajectory_pair_component_cost cfg ev = Inl CheckFailed \<longleftrightarrow> \<not> FLAGS_enable_auto_tuning cfg) \<and>
   next_top_trajectory_pair cfg ev \<noteq> Inl TopOfEmptyQueue"
  by (cases "cost_queue ev"; cases "cost_queue_with_components ev")
     (auto simp: next_top_trajectory_pair_def top_trajectory_pair_component_cost_def
        has_more_trajectory_pairs_def pq_empty_def pq_top_def
        split: option.splits)

text \<open>Both checks fail on the three-pair store: the first when the (empty) queue with
  components is the one in use, the second when component tracking is off.\<close>

theorem fail_fast_checks_witness:
  "\<not> has_more_trajectory_pairs demo_tuning_flags demo_store \<and>
   next_top_trajectory_pair demo_tuning_flags demo_store = Inl CheckFailed \<and>
   \<not> FLAGS_enable_auto_tuning demo_flags \<and>
   top_trajectory_pair_component_cost demo_flags demo_store = Inl CheckFailed"
  using fail_fast_checks [of demo_tuning_flags demo_store] fail_fast_checks [of demo_flags demo_store]
  by (simp add: demo_defs queue_defs)

text \<open>
  Claim C9. \<^verbatim>\<open>top_trajectory_pair_cost\<close> contains no check: with no pair left it reads
  the top of an empty queue, where \<^verbatim>\<open>next_top_trajectory_pair\<close> aborts on its \<^verbatim>\<open>CHECK\<close>;
  it never fails a \<^verbatim>\<open>CHECK\<close>, and it returns a cost exactly when a pair remains.
\<close>

theorem top_cost_unchecked:
  "(\<not> has_more_trajectory_pairs cfg ev \<longrightarrow>
      top_trajectory_pair_cost cfg ev = Inl TopOfEmptyQueue \<and>
      next_top_trajectory_pair cfg ev = Inl CheckFailed) \<and>
   top_trajectory_pair_cost cfg ev \<noteq> Inl CheckFailed \<and>
   (has_more_trajectory_pairs cfg ev \<longleftrightarrow> (\<exists>cost. top_trajectory_pair_cost cfg ev = Inr cost))"
  by (cases "cost_queue ev"; cases "cost_queue_with_components ev")
     (auto simp: next_top_trajectory_pair_def top_trajectory_pair_cost_def
        has_more_trajectory_pairs_def pq_empty_def pq_top_def
        split: option.splits)

text \<open>On a freshly built, empty evaluator.\<close>

theorem top_cost_unchecked_witness:
  "\<not> has_more_trajectory_pairs demo_flags (demo_evaluator free_road) \<and>
   top_trajectory_pair_cost demo_flags (demo_evaluator free_road) = Inl TopOfEmptyQueue \<and>
   next_top_trajectory_pair demo_flags (demo_evaluator free_road) = Inl CheckFailed"
  using top_cost_unchecked [of demo_flags "demo_evaluator free_road"]
  by (simp add: demo_defs queue_defs)

subsection \<open>The guide velocity\<close>

lemma fold_append_samples:
  "fold (\<lambda>t xs. xs @ [f t]) pts acc = acc @ map f pts"
  by (induction pts arbitrary: acc) simp_all

lemma ComputeLongitudinalGuideVelocity_samples:
  assumes "0 < FLAGS_trajectory_time_resolution cfg"
  shows "ComputeLongitudinalGuideVelocity cfg ev planning_target =
           Some (map (CAT1d_Evaluate (ComputeLongitudinalGuideVelocity_lon_traj cfg ev planning_target) 1)
                   (loop_points 0 (FLAGS_trajectory_time_length cfg)
                      (FLAGS_trajectory_time_resolution cfg)))"
  by (simp add: ComputeLongitudinalGuideVelocity_def for_loop_fold [OF assms] fold_append_samples)

text \<open>
  Claim C4. With no stop point the profile of \<^verbatim>\<open>ComputeLongitudinalGuideVelocity\<close> is one
  zero-acceleration segment that spans the horizon, and its speed is the cruise speed at
  every time \<open>t\<close>, so at every time the loop samples, however many these are; with a
  positive time resolution the function returns, every reference speed it returns is
  the cruise speed, and with a positive horizon there is at least one.
\<close>

theorem guide_velocity_cruise_only_constant:
  assumes "\<not> has_stop_point planning_target"
    and "0 < FLAGS_trajectory_time_resolution cfg"
  shows "segments (ComputeLongitudinalGuideVelocity_lon_traj cfg ev planning_target) =
           [(0, FLAGS_trajectory_time_length cfg)] \<and>
         (\<forall>t. CAT1d_Evaluate (ComputeLongitudinalGuideVelocity_lon_traj cfg ev planning_target) 1 t =
                cruise_speed planning_target) \<and>
         (\<exists>reference_s_dot.
            ComputeLongitudinalGuideVelocity cfg ev planning_target = Some reference_s_dot \<and>
            (\<forall>v \<in> set reference_s_dot. v = cruise_speed planning_target) \<and>
            (0 < FLAGS_trajectory_time_length cfg \<longrightarrow> reference_s_dot \<noteq> []))"
proof -
  let ?traj = "ComputeLongitudinalGuideVelocity_lon_traj cfg ev planning_target"
  let ?pts = "loop_points 0 (FLAGS_trajectory_time_length cfg)
                (FLAGS_trajectory_time_resolution cfg)"
  have seg: "segments ?traj = [(0, FLAGS_trajectory_time_length cfg)]"
    and v: "start_v ?traj = cruise_speed planning_target"
    using assms(1)
    by (simp_all add: has_stop_point_def ComputeLongitudinalGuideVelocity_lon_traj_def
        AppendSegment_def new_ConstantAccelerationTrajectory1d_def)
  have const: "CAT1d_Evaluate ?traj 1 t = cruise_speed planning_target" for t
    by (simp add: CAT1d_Evaluate_def seg v motion_def)
  have ne: "?pts \<noteq> []" if "0 < FLAGS_trajectory_time_length cfg"
    using loop_points_step [OF assms(2) that] by simp
  have "ComputeLongitudinalGuideVelocity cfg ev planning_target =
          Some (map (CAT1d_Evaluate ?traj 1) ?pts)"
    by (rule ComputeLongitudinalGuideVelocity_samples [OF assms(2)])
  then have "\<exists>reference_s_dot.
            ComputeLongitudinalGuideVelocity cfg ev planning_target = Some reference_s_dot \<and>
            (\<forall>v \<in> set reference_s_dot. v = cruise_speed planning_target) \<and>
            (0 < FLAGS_trajectory_time_length cfg \<longrightarrow> reference_s_dot \<noteq> [])"
    using const ne by auto
  with seg const show ?thesis by blast
qed

text \<open>With the cruise speed 10 and no stop point, over two time steps.\<close>

theorem guide_velocity_cruise_only_constant_witness:
  "\<not> has_stop_point cruise_target \<and>
   0 < FLAGS_trajectory_time_resolution demo_flags \<and>
   0 < FLAGS_trajectory_time_length demo_flags \<and>
   cruise_speed cruise_target = 10 \<and>
   CAT1d_Evaluate
     (ComputeLongitudinalGuideVelocity_lon_traj demo_flags (demo_evaluator blocked_road)
        cruise_target) 1 (1 / 2) = 10 \<and>
   ComputeLongitudinalGuideVelocity demo_flags (demo_evaluator blocked_road) cruise_target =
     Some [10, 10]"
  using guide_velocity_cruise_only_constant [of cruise_target demo_flags "demo_evaluator blocked_road"]
  by (simp add: demo_defs cost_defs has_stop_point_def)

lemma segments_Evaluate_speed_at_start:
  "0 \<le> d \<Longrightarrow> segments_Evaluate 1 s0 v0 0 ((a, d) # segs) 0 = v0"
  by (simp add: motion_def)

lemma stop_traj_branches:
  fixes cfg ev planning_target stop_s
  defines "ca \<equiv> FLAGS_longitudinal_acceleration_lower_bound cfg *
                 FLAGS_comfort_acceleration_factor cfg"
    and "c \<equiv> cruise_speed planning_target"
    and "dst \<equiv> stop_s - fst (init_s ev)"
  defines "stop_a \<equiv> (if dst > FLAGS_lattice_epsilon cfg then - c * c * 0.5 / dst
                      else FLAGS_longitudinal_acceleration_lower_bound cfg)"
  shows "ComputeLongitudinalGuideVelocity_stop_traj cfg ev planning_target stop_s =
           (if stop_a > ca then
              \<lparr>start_s = fst (init_s ev), start_v = c,
               segments = [(0, (dst - c * (c / (- ca)) * 0.5) / c), (ca, c / (- ca))]\<rparr>
            else
              \<lparr>start_s = fst (init_s ev), start_v = c, segments = [(stop_a, c / (- stop_a))]\<rparr>)"
  unfolding ComputeLongitudinalGuideVelocity_stop_traj_def Let_def AppendSegment_def
    new_ConstantAccelerationTrajectory1d_def stop_a_def dst_def c_def ca_def
  by simp

lemma stop_traj_facts:
  assumes v: "0 < cruise_speed planning_target"
    and lower: "FLAGS_longitudinal_acceleration_lower_bound cfg < 0"
    and factor: "0 < FLAGS_comfort_acceleration_factor cfg"
                "FLAGS_comfort_acceleration_factor cfg \<le> 1"
    and eps: "0 \<le> FLAGS_lattice_epsilon cfg"
  shows "\<exists>a d segs. 0 \<le> d \<and>
           segments (ComputeLongitudinalGuideVelocity_stop_traj cfg ev planning_target stop_s) =
             (a, d) # segs"
    and "CAT1d_Evaluate (ComputeLongitudinalGuideVelocity_stop_traj cfg ev planning_target stop_s) 1
           (CAT1d_ParamLength (ComputeLongitudinalGuideVelocity_stop_traj cfg ev planning_target stop_s))
         = 0"
proof -
  define lb where "lb = FLAGS_longitudinal_acceleration_lower_bound cfg"
  define ca where "ca = lb * FLAGS_comfort_acceleration_factor cfg"
  define c where "c = cruise_speed planning_target"
  define dst where "dst = stop_s - fst (init_s ev)"
  define stop_a where
    "stop_a = (if dst > FLAGS_lattice_epsilon cfg then - c * c * 0.5 / dst else lb)"
  let ?st = "ComputeLongitudinalGuideVelocity_stop_traj cfg ev planning_target stop_s"
  have st: "?st =
           (if stop_a > ca then
              \<lparr>start_s = fst (init_s ev), start_v = c,
               segments = [(0, (dst - c * (c / (- ca)) * 0.5) / c), (ca, c / (- ca))]\<rparr>
            else
              \<lparr>start_s = fst (init_s ev), start_v = c, segments = [(stop_a, c / (- stop_a))]\<rparr>)"
    unfolding stop_a_def dst_def c_def ca_def lb_def by (rule stop_traj_branches)
  have cpos: "0 < c" using v by (simp add: c_def)
  have ca: "ca < 0"
    using lower factor(1) by (simp add: ca_def lb_def mult_neg_pos)
  have lb_le: "lb \<le> ca"
    using lower factor(2) unfolding ca_def lb_def
    by (metis less_eq_real_def mult.right_neutral mult_left_mono_neg)
  have both: "(\<exists>a d segs. 0 \<le> d \<and> segments ?st = (a, d) # segs) \<and>
              CAT1d_Evaluate ?st 1 (CAT1d_ParamLength ?st) = 0"
  proof (cases "stop_a > ca")
    case True
    then have far: "dst > FLAGS_lattice_epsilon cfg"
      using lb_le by (auto simp: stop_a_def split: if_splits)
    then have dpos: "0 < dst" using eps by linarith
    have "ca < - c * c * 0.5 / dst"
      using True far by (simp add: stop_a_def)
    then have "ca * dst < - c * c * 0.5"
      using dpos by (simp add: field_simps)
    then have "c * (c / (- ca)) * 0.5 \<le> dst"
      using ca by (simp add: field_simps)
    then have ct: "0 \<le> (dst - c * (c / (- ca)) * 0.5) / c"
      using cpos by simp
    have "0 < - ca" using ca by simp
    then have "0 < c / (- ca)"
      using cpos by (rule divide_pos_pos [rotated])
    then have n: "\<not> c / (- ca) \<le> 0" by linarith
    have z: "c + ca * (c / (- ca)) = 0"
      using ca by (simp add: field_simps)
    show ?thesis
      using True ct n z
      by (simp add: st CAT1d_Evaluate_def CAT1d_ParamLength_def motion_def)
  next
    case False
    then have neg: "stop_a < 0" using ca by linarith
    then have "0 < - stop_a" by simp
    then have "0 < c / (- stop_a)"
      using cpos by (rule divide_pos_pos [rotated])
    then have d: "0 \<le> c / (- stop_a)" by simp
    have z: "c + stop_a * (c / (- stop_a)) = 0"
      using neg by (simp add: field_simps)
    show ?thesis
      using False d z
      by (simp add: st CAT1d_Evaluate_def CAT1d_ParamLength_def motion_def)
  qed
  from both show "\<exists>a d segs. 0 \<le> d \<and> segments ?st = (a, d) # segs" ..
  from both show "CAT1d_Evaluate ?st 1 (CAT1d_ParamLength ?st) = 0" ..
qed

lemma stop_traj_start_v:
  "start_v (ComputeLongitudinalGuideVelocity_stop_traj cfg ev planning_target stop_s) =
     cruise_speed planning_target"
  by (simp add: ComputeLongitudinalGuideVelocity_stop_traj_def Let_def AppendSegment_def
      new_ConstantAccelerationTrajectory1d_def)

lemma lon_traj_start_v:
  "start_v (ComputeLongitudinalGuideVelocity_lon_traj cfg ev planning_target) =
     cruise_speed planning_target"
  by (simp add: ComputeLongitudinalGuideVelocity_lon_traj_def Let_def AppendSegment_def
      new_ConstantAccelerationTrajectory1d_def stop_traj_start_v split: option.splits)

lemma lon_traj_speed_at_start:
  assumes "stop_point_s planning_target \<noteq> None \<longrightarrow>
             0 < cruise_speed planning_target \<and>
             FLAGS_longitudinal_acceleration_lower_bound cfg < 0 \<and>
             0 < FLAGS_comfort_acceleration_factor cfg \<and>
             FLAGS_comfort_acceleration_factor cfg \<le> 1 \<and>
             0 \<le> FLAGS_lattice_epsilon cfg"
  shows "CAT1d_Evaluate (ComputeLongitudinalGuideVelocity_lon_traj cfg ev planning_target) 1 0 =
           cruise_speed planning_target"
proof (cases "stop_point_s planning_target")
  case None
  then show ?thesis
    by (simp add: ComputeLongitudinalGuideVelocity_lon_traj_def AppendSegment_def
        new_ConstantAccelerationTrajectory1d_def CAT1d_Evaluate_def motion_def)
next
  case (Some stop_s)
  let ?st = "ComputeLongitudinalGuideVelocity_stop_traj cfg ev planning_target stop_s"
  from Some assms obtain a d segs where d: "0 \<le> d" and seg: "segments ?st = (a, d) # segs"
    using stop_traj_facts(1) [of planning_target cfg ev stop_s] by auto
  let ?lt = "ComputeLongitudinalGuideVelocity_lon_traj cfg ev planning_target"
  have ev0: "segments_Evaluate 1 s0 v0 0 ((a, d) # segs @ rest) 0 = v0" for s0 v0 rest
    by (rule segments_Evaluate_speed_at_start [OF d])
  have "\<exists>rest. segments ?lt = (a, d) # segs @ rest"
    using Some seg
    by (simp add: ComputeLongitudinalGuideVelocity_lon_traj_def Let_def AppendSegment_def)
  then obtain rest where "segments ?lt = (a, d) # segs @ rest" ..
  then have "CAT1d_Evaluate ?lt 1 0 = start_v ?lt"
    unfolding CAT1d_Evaluate_def by (simp only: ev0)
  then show ?thesis
    by (simp add: lon_traj_start_v)
qed

text \<open>
  Claim C3, as amended. The profile built by \<^verbatim>\<open>ComputeLongitudinalGuideVelocity\<close> starts
  at the cruise speed of the planning target, which is what the constructor of the
  profile is given; \<^verbatim>\<open>init_s_[1]\<close> is never read. With a positive horizon and time
  resolution (and, in stop mode, a positive cruise speed, a negative lower acceleration
  bound, a comfort factor in \<open>(0, 1]\<close> and a non-negative \<open>\<epsilon>\<close>, so that no division is by
  zero and no segment has a negative duration) the first sampled reference speed is
  the cruise speed, and in stop mode the stopping segments bring the speed from the
  cruise speed down to zero.
\<close>

theorem guide_velocity_starts_at_cruise_speed:
  assumes "0 < FLAGS_trajectory_time_length cfg"
    and "0 < FLAGS_trajectory_time_resolution cfg"
    and "stop_point_s planning_target \<noteq> None \<longrightarrow>
           0 < cruise_speed planning_target \<and>
           FLAGS_longitudinal_acceleration_lower_bound cfg < 0 \<and>
           0 < FLAGS_comfort_acceleration_factor cfg \<and>
           FLAGS_comfort_acceleration_factor cfg \<le> 1 \<and>
           0 \<le> FLAGS_lattice_epsilon cfg"
  shows "start_v (ComputeLongitudinalGuideVelocity_lon_traj cfg ev planning_target) =
           cruise_speed planning_target \<and>
         (\<exists>rest. ComputeLongitudinalGuideVelocity cfg ev planning_target =
                   Some (cruise_speed planning_target # rest)) \<and>
         (\<forall>stop_s. stop_point_s planning_target = Some stop_s \<longrightarrow>
            CAT1d_Evaluate
              (ComputeLongitudinalGuideVelocity_stop_traj cfg ev planning_target stop_s) 1
              (CAT1d_ParamLength
                 (ComputeLongitudinalGuideVelocity_stop_traj cfg ev planning_target stop_s)) = 0)"
proof (intro conjI allI impI)
  show "start_v (ComputeLongitudinalGuideVelocity_lon_traj cfg ev planning_target) =
          cruise_speed planning_target"
    by (rule lon_traj_start_v)
next
  have "loop_points 0 (FLAGS_trajectory_time_length cfg) (FLAGS_trajectory_time_resolution cfg) =
          0 # loop_points (0 + FLAGS_trajectory_time_resolution cfg)
                (FLAGS_trajectory_time_length cfg) (FLAGS_trajectory_time_resolution cfg)"
    by (rule loop_points_step [OF assms(2) assms(1)])
  then show "\<exists>rest. ComputeLongitudinalGuideVelocity cfg ev planning_target =
                   Some (cruise_speed planning_target # rest)"
    using ComputeLongitudinalGuideVelocity_samples [OF assms(2), of ev planning_target]
      lon_traj_speed_at_start [OF assms(3), of ev]
    by simp
next
  fix stop_s
  assume "stop_point_s planning_target = Some stop_s"
  then show "CAT1d_Evaluate
              (ComputeLongitudinalGuideVelocity_stop_traj cfg ev planning_target stop_s) 1
              (CAT1d_ParamLength
                 (ComputeLongitudinalGuideVelocity_stop_traj cfg ev planning_target stop_s)) = 0"
    using assms(3) stop_traj_facts(2) [of planning_target cfg ev stop_s] by simp
qed

text \<open>The claim as the spec states it fails: with the initial speed 5 and the cruise speed
  10 the first sampled reference speed is 10, in stop mode (one segment of deceleration
  5 over 2 seconds) and in cruise-only mode alike; with the initial speed 7 the samples
  are the same.\<close>

theorem guide_velocity_not_initial_speed:
  "fst (snd (init_s (demo_evaluator free_road))) = 5 \<and>
   cruise_speed demo_target = 10 \<and>
   ComputeLongitudinalGuideVelocity demo_flags (demo_evaluator free_road) demo_target =
     Some [10, 15 / 2] \<and>
   ComputeLongitudinalGuideVelocity demo_flags
     ((demo_evaluator free_road)\<lparr>init_s := (0, 7, 0)\<rparr>) demo_target = Some [10, 15 / 2] \<and>
   ComputeLongitudinalGuideVelocity demo_flags (demo_evaluator free_road) cruise_target =
     Some [10, 10]"
  by (simp add: demo_defs cost_defs)

text \<open>The same stop-mode input satisfies every hypothesis of the amended claim.\<close>

theorem guide_velocity_starts_at_cruise_speed_witness:
  "0 < FLAGS_trajectory_time_length demo_flags \<and>
   0 < FLAGS_trajectory_time_resolution demo_flags \<and>
   stop_point_s demo_target = Some 10 \<and>
   0 < cruise_speed demo_target \<and>
   FLAGS_longitudinal_acceleration_lower_bound demo_flags < 0 \<and>
   0 < FLAGS_comfort_acceleration_factor demo_flags \<and>
   FLAGS_comfort_acceleration_factor demo_flags \<le> 1 \<and>
   0 \<le> FLAGS_lattice_epsilon demo_flags \<and>
   start_v (ComputeLongitudinalGuideVelocity_lon_traj demo_flags (demo_evaluator free_road)
              demo_target) = 10 \<and>
   segments (ComputeLongitudinalGuideVelocity_stop_traj demo_flags (demo_evaluator free_road)
               demo_target 10) = [(- 5, 2)] \<and>
   CAT1d_Evaluate
     (ComputeLongitudinalGuideVelocity_stop_traj demo_flags (demo_evaluator free_road)
        demo_target 10) 1 2 = 0 \<and>
   (\<exists>rest. ComputeLongitudinalGuideVelocity demo_flags (demo_evaluator free_road) demo_target =
             Some (10 # rest))"
  using guide_velocity_starts_at_cruise_speed [of demo_flags demo_target "demo_evaluator free_road"]
  by (simp add: demo_defs cost_defs)

subsection \<open>The total cost and the constructor\<close>

lemma ComputeLongitudinalGuideVelocity_total:
  "0 < FLAGS_trajectory_time_resolution cfg \<Longrightarrow>
   \<exists>r. ComputeLongitudinalGuideVelocity cfg ev planning_target = Some r"
  by (simp add: ComputeLongitudinalGuideVelocity_def for_loop_fold)

lemma LonComfortCost_total:
  "0 < FLAGS_trajectory_time_resolution cfg \<Longrightarrow> \<exists>r. LonComfortCost cfg lon = Some r"
  by (simp add: LonComfortCost_def for_loop_fold split: prod.splits)

lemma LatComfortCost_total:
  "0 < FLAGS_trajectory_time_resolution cfg \<Longrightarrow> \<exists>r. LatComfortCost cfg lon lat = Some r"
  by (simp add: LatComfortCost_def for_loop_fold)

lemma Evaluate_result:
  assumes "Evaluate cfg ev planning_target lon lat cost_components = Some (total_cost, components)"
  shows "\<exists>reference_s_dot lon_jerk_cost s_values lat_comfort_cost.
           ComputeLongitudinalGuideVelocity cfg ev planning_target = Some reference_s_dot \<and>
           LonComfortCost cfg lon = Some lon_jerk_cost \<and>
           for_loop 0 (min (FLAGS_decision_horizon cfg) (Curve_Evaluate lon 0 (ParamLength lon)))
             (FLAGS_trajectory_space_resolution cfg) (\<lambda>s s_values. s_values @ [s]) [] =
             Some s_values \<and>
           LatComfortCost cfg lon lat = Some lat_comfort_cost \<and>
           total_cost =
             LonObjectiveCost cfg lon planning_target reference_s_dot * FLAGS_weight_lon_travel cfg +
             lon_jerk_cost * FLAGS_weight_lon_jerk cfg +
             LonCollisionCost cfg ev lon * FLAGS_weight_lon_collision cfg +
             LatOffsetCost cfg lat s_values * FLAGS_weight_lat_offset cfg +
             lat_comfort_cost * FLAGS_weight_lat_comfort cfg \<and>
           components =
             map_option (\<lambda>v. v @ [LonObjectiveCost cfg lon planning_target reference_s_dot,
                                   lon_jerk_cost, LonCollisionCost cfg ev lon,
                                   LatOffsetCost cfg lat s_values]) cost_components"
  using assms
  by (cases cost_components) (auto simp: Evaluate_def Let_def split: bind_splits)

lemma Evaluate_total:
  assumes "0 < FLAGS_trajectory_time_resolution cfg" "0 < FLAGS_trajectory_space_resolution cfg"
  shows "\<exists>total_cost components.
           Evaluate cfg ev planning_target lon lat cost_components = Some (total_cost, components)"
proof -
  obtain r where r: "ComputeLongitudinalGuideVelocity cfg ev planning_target = Some r"
    using ComputeLongitudinalGuideVelocity_total [OF assms(1)] by blast
  obtain j where j: "LonComfortCost cfg lon = Some j"
    using LonComfortCost_total [OF assms(1)] by blast
  obtain c where c: "LatComfortCost cfg lon lat = Some c"
    using LatComfortCost_total [OF assms(1)] by blast
  show ?thesis
    by (simp add: Evaluate_def r j c for_loop_fold [OF assms(2)] Let_def)
qed

lemma Evaluate_same_inputs:
  assumes "init_s ev = init_s base" "path_time_intervals ev = path_time_intervals base"
  shows "Evaluate cfg ev planning_target lon lat cost_components =
         Evaluate cfg base planning_target lon lat cost_components"
proof -
  have "ComputeLongitudinalGuideVelocity_stop_traj cfg ev planning_target =
        ComputeLongitudinalGuideVelocity_stop_traj cfg base planning_target"
    by (rule ext) (simp add: ComputeLongitudinalGuideVelocity_stop_traj_def assms(1))
  then have "ComputeLongitudinalGuideVelocity_lon_traj cfg ev planning_target =
        ComputeLongitudinalGuideVelocity_lon_traj cfg base planning_target"
    by (simp add: ComputeLongitudinalGuideVelocity_lon_traj_def assms(1) cong: option.case_cong)
  then have "ComputeLongitudinalGuideVelocity cfg ev planning_target =
        ComputeLongitudinalGuideVelocity cfg base planning_target"
    by (simp add: ComputeLongitudinalGuideVelocity_def)
  moreover have "LonCollisionCost cfg ev lon = LonCollisionCost cfg base lon"
    by (simp add: LonCollisionCost_def assms(2))
  ultimately show ?thesis
    by (simp add: Evaluate_def)
qed

lemma ctor_lat_loop_records:
  assumes "FLAGS_enable_auto_tuning cfg"
  shows "ctor_lat_loop cfg planning_target lon lats ev = Some ev' \<Longrightarrow>
         records_Evaluate cfg base planning_target ev \<Longrightarrow>
         records_Evaluate cfg base planning_target ev'"
proof (induction lats arbitrary: ev)
  case Nil
  then show ?case by simp
next
  case (Cons lat lats)
  from Cons.prems(1) assms obtain cost cc where
    e: "Evaluate cfg ev planning_target lon lat (Some []) = Some (cost, cc)" and
    l: "ctor_lat_loop cfg planning_target lon lats
         (ev\<lparr>cost_queue_with_components :=
               pq_push ((lon, lat), (case cc of None \<Rightarrow> [] | Some v \<Rightarrow> v, cost))
                 (cost_queue_with_components ev)\<rparr>) = Some ev'"
    by (auto split: bind_splits)
  from Evaluate_result [OF e] obtain v where cc: "cc = Some v" by auto
  have "Evaluate cfg base planning_target lon lat (Some []) = Some (cost, Some v)"
    using e cc Cons.prems(2) Evaluate_same_inputs [of ev base]
    by (simp add: records_Evaluate_def)
  then have "records_Evaluate cfg base planning_target
         (ev\<lparr>cost_queue_with_components :=
               pq_push ((lon, lat), (case cc of None \<Rightarrow> [] | Some v \<Rightarrow> v, cost))
                 (cost_queue_with_components ev)\<rparr>)"
    using Cons.prems(2) by (simp add: records_Evaluate_def pq_push_def cc)
  with l show ?case by (rule Cons.IH)
qed

lemma ctor_lon_loop_records:
  assumes "FLAGS_enable_auto_tuning cfg"
  shows "ctor_lon_loop cfg valid planning_target stop_point end_time lats lons ev = Some ev' \<Longrightarrow>
         records_Evaluate cfg base planning_target ev \<Longrightarrow>
         records_Evaluate cfg base planning_target ev'"
proof (induction lons arbitrary: ev)
  case Nil
  then show ?case by simp
next
  case (Cons lon lons)
  show ?case
  proof (cases "Curve_Evaluate lon 0 end_time > stop_point \<or> \<not> valid lon")
    case True
    then have "ctor_lon_loop cfg valid planning_target stop_point end_time lats lons ev = Some ev'"
      using Cons.prems(1) by (auto simp: Let_def split: if_splits)
    then show ?thesis using Cons.prems(2) by (rule Cons.IH)
  next
    case False
    then obtain ev1 where
      l: "ctor_lat_loop cfg planning_target lon lats ev = Some ev1" and
      r: "ctor_lon_loop cfg valid planning_target stop_point end_time lats lons ev1 = Some ev'"
      using Cons.prems(1) by (auto simp: Let_def split: if_splits bind_splits)
    from r ctor_lat_loop_records [OF assms l Cons.prems(2)] show ?thesis by (rule Cons.IH)
  qed
qed

lemma new_TrajectoryEvaluator_records:
  assumes "FLAGS_enable_auto_tuning cfg"
    and "new_TrajectoryEvaluator cfg valid init_state planning_target lons lats graph = Some ev"
    and "e \<in> set (cost_queue_with_components ev)"
  shows "Evaluate cfg ev planning_target (fst (fst e)) (snd (fst e)) (Some []) =
           Some (snd (snd e), Some (fst (snd e)))"
proof -
  define base where "base =
    \<lparr>path_time_graph = graph, init_s = init_state,
     path_time_intervals =
       GetPathBlockingIntervals graph 0 (FLAGS_trajectory_time_length cfg)
         (FLAGS_trajectory_time_resolution cfg),
     cost_queue = [], cost_queue_with_components = []\<rparr>"
  have "records_Evaluate cfg base planning_target base"
    by (simp add: records_Evaluate_def base_def)
  moreover have "ctor_lon_loop cfg valid planning_target
      (case stop_point_s planning_target of None \<Rightarrow> DBL_MAX | Some s \<Rightarrow> s)
      (FLAGS_trajectory_time_length cfg) lats lons base = Some ev"
    using assms(2) by (simp add: new_TrajectoryEvaluator_def Let_def base_def)
  ultimately have r: "records_Evaluate cfg base planning_target ev"
    using ctor_lon_loop_records [OF assms(1)] by blast
  then have "Evaluate cfg base planning_target (fst (fst e)) (snd (fst e)) (Some []) =
           Some (snd (snd e), Some (fst (snd e)))"
    using assms(3) by (simp add: records_Evaluate_def list_all_iff)
  then show ?thesis
    using r Evaluate_same_inputs [of ev base] by (simp add: records_Evaluate_def)
qed

text \<open>
  Claim C6. \<^verbatim>\<open>Evaluate\<close>, called with the address of an empty vector as the constructor
  does in component-tracking mode, returns whenever the time and space resolutions are
  positive; and when it returns, the vector holds exactly four entries, in order the
  objective cost, the longitudinal jerk cost, the longitudinal collision cost and the
  lateral offset cost (the lateral comfort cost is not among them), while the returned
  total is the sum of the five costs, each times its own weight. The entries of the
  store that the constructor fills in that mode hold just this vector and this total.
\<close>

theorem Evaluate_components_and_total:
  "(0 < FLAGS_trajectory_time_resolution cfg \<and> 0 < FLAGS_trajectory_space_resolution cfg \<longrightarrow>
      Evaluate cfg ev planning_target lon lat (Some []) \<noteq> None) \<and>
   (\<forall>total_cost components.
      Evaluate cfg ev planning_target lon lat (Some []) = Some (total_cost, components) \<longrightarrow>
      (\<exists>reference_s_dot lon_jerk_cost s_values lat_comfort_cost.
         ComputeLongitudinalGuideVelocity cfg ev planning_target = Some reference_s_dot \<and>
         LonComfortCost cfg lon = Some lon_jerk_cost \<and>
         for_loop 0 (min (FLAGS_decision_horizon cfg) (Curve_Evaluate lon 0 (ParamLength lon)))
           (FLAGS_trajectory_space_resolution cfg) (\<lambda>s s_values. s_values @ [s]) [] =
           Some s_values \<and>
         LatComfortCost cfg lon lat = Some lat_comfort_cost \<and>
         components =
           Some [LonObjectiveCost cfg lon planning_target reference_s_dot,
                 lon_jerk_cost,
                 LonCollisionCost cfg ev lon,
                 LatOffsetCost cfg lat s_values] \<and>
         total_cost =
           LonObjectiveCost cfg lon planning_target reference_s_dot * FLAGS_weight_lon_travel cfg +
           lon_jerk_cost * FLAGS_weight_lon_jerk cfg +
           LonCollisionCost cfg ev lon * FLAGS_weight_lon_collision cfg +
           LatOffsetCost cfg lat s_values * FLAGS_weight_lat_offset cfg +
           lat_comfort_cost * FLAGS_weight_lat_comfort cfg)) \<and>
   (\<forall>valid init_state lons lats graph built e.
      FLAGS_enable_auto_tuning cfg \<and>
      new_TrajectoryEvaluator cfg valid init_state planning_target lons lats graph = Some built \<and>
      e \<in> set (cost_queue_with_components built) \<longrightarrow>
      length (fst (snd e)) = 4 \<and>
      Evaluate cfg built planning_target (fst (fst e)) (snd (fst e)) (Some []) =
        Some (snd (snd e), Some (fst (snd e))))"
proof (intro conjI allI impI)
  assume "0 < FLAGS_trajectory_time_resolution cfg \<and> 0 < FLAGS_trajectory_space_resolution cfg"
  then show "Evaluate cfg ev planning_target lon lat (Some []) \<noteq> None"
    using Evaluate_total [of cfg ev planning_target lon lat "Some []"] by auto
next
  fix total_cost components
  assume "Evaluate cfg ev planning_target lon lat (Some []) = Some (total_cost, components)"
  from Evaluate_result [OF this] show
    "\<exists>reference_s_dot lon_jerk_cost s_values lat_comfort_cost.
         ComputeLongitudinalGuideVelocity cfg ev planning_target = Some reference_s_dot \<and>
         LonComfortCost cfg lon = Some lon_jerk_cost \<and>
         for_loop 0 (min (FLAGS_decision_horizon cfg) (Curve_Evaluate lon 0 (ParamLength lon)))
           (FLAGS_trajectory_space_resolution cfg) (\<lambda>s s_values. s_values @ [s]) [] =
           Some s_values \<and>
         LatComfortCost cfg lon lat = Some lat_comfort_cost \<and>
         components =
           Some [LonObjectiveCost cfg lon planning_target reference_s_dot,
                 lon_jerk_cost,
                 LonCollisionCost cfg ev lon,
                 LatOffsetCost cfg lat s_values] \<and>
         total_cost =
           LonObjectiveCost cfg lon planning_target reference_s_dot * FLAGS_weight_lon_travel cfg +
           lon_jerk_cost * FLAGS_weight_lon_jerk cfg +
           LonCollisionCost cfg ev lon * FLAGS_weight_lon_collision cfg +
           LatOffsetCost cfg lat s_values * FLAGS_weight_lat_offset cfg +
           lat_comfort_cost * FLAGS_weight_lat_comfort cfg"
    by auto
next
  fix valid init_state lons lats graph built e
  assume a: "FLAGS_enable_auto_tuning cfg \<and>
      new_TrajectoryEvaluator cfg valid init_state planning_target lons lats graph = Some built \<and>
      e \<in> set (cost_queue_with_components built)"
  then have r: "Evaluate cfg built planning_target (fst (fst e)) (snd (fst e)) (Some []) =
        Some (snd (snd e), Some (fst (snd e)))"
    using new_TrajectoryEvaluator_records by blast
  from Evaluate_result [OF r] show "length (fst (snd e)) = 4" by auto
  from r show "Evaluate cfg built planning_target (fst (fst e)) (snd (fst e)) (Some []) =
        Some (snd (snd e), Some (fst (snd e)))" .
qed

text \<open>One pair on the road with an obstacle: the four reported costs, the lateral comfort
  cost 3, and the weights 1, 2, 3, 4 and 5; the evaluator built in component-tracking
  mode reports the same four costs for its best pair.\<close>

theorem Evaluate_components_and_total_witness:
  "0 < FLAGS_trajectory_time_resolution demo_tuning_flags \<and>
   0 < FLAGS_trajectory_space_resolution demo_tuning_flags \<and>
   LatComfortCost demo_tuning_flags slow_lon demo_lat = Some 3 \<and>
   Evaluate demo_tuning_flags (demo_evaluator blocked_road) demo_target slow_lon demo_lat
     (Some []) =
     Some (3 / 5 * 1 + 9 / 8 * 2 + 1 / 2 * 3 + 5 / 4 * 4 + 3 * 5,
           Some [3 / 5, 9 / 8, 1 / 2, 5 / 4]) \<and>
   FLAGS_enable_auto_tuning demo_tuning_flags \<and>
   map_option (top_trajectory_pair_component_cost demo_tuning_flags)
     (new_TrajectoryEvaluator demo_tuning_flags (\<lambda>lon. True) (0, 5, 0) demo_target
        [fast_lon, slow_lon] [demo_lat] blocked_road) =
     Some (Inr [3 / 5, 9 / 8, 1 / 2, 5 / 4])"
  using Evaluate_components_and_total [of demo_tuning_flags "demo_evaluator blocked_road"
      demo_target slow_lon demo_lat]
  by (simp add: demo_defs cost_defs queue_defs new_TrajectoryEvaluator_def)

lemma ctor_lat_loop_entries:
  "ctor_lat_loop cfg planning_target lon lats ev = Some ev' \<Longrightarrow>
   fst ` set (store_entries cfg ev') = fst ` set (store_entries cfg ev) \<union> {lon} \<times> set lats"
proof (induction lats arbitrary: ev)
  case Nil
  then show ?case by simp
next
  case (Cons lat lats)
  show ?case
  proof (cases "FLAGS_enable_auto_tuning cfg")
    case False
    with Cons.prems obtain cost cc where
      "ctor_lat_loop cfg planning_target lon lats
         (ev\<lparr>cost_queue := pq_push ((lon, lat), cost) (cost_queue ev)\<rparr>) = Some ev'"
      by (auto split: bind_splits)
    from Cons.IH [OF this] False show ?thesis
      by (auto simp: store_entries_def pq_push_def)
  next
    case True
    with Cons.prems obtain cost cc where
      "ctor_lat_loop cfg planning_target lon lats
         (ev\<lparr>cost_queue_with_components :=
               pq_push ((lon, lat), (case cc of None \<Rightarrow> [] | Some v \<Rightarrow> v, cost))
                 (cost_queue_with_components ev)\<rparr>) = Some ev'"
      by (auto split: bind_splits)
    from Cons.IH [OF this] True show ?thesis
      by (auto simp: store_entries_def pq_push_def image_Un)
  qed
qed

lemma ctor_lat_loop_total:
  assumes "0 < FLAGS_trajectory_time_resolution cfg" "0 < FLAGS_trajectory_space_resolution cfg"
  shows "\<exists>ev'. ctor_lat_loop cfg planning_target lon lats ev = Some ev'"
proof (induction lats arbitrary: ev)
  case Nil
  then show ?case by simp
next
  case (Cons lat lats)
  obtain t1 c1 where e1: "Evaluate cfg ev planning_target lon lat None = Some (t1, c1)"
    using Evaluate_total [OF assms] by blast
  obtain t2 c2 where e2: "Evaluate cfg ev planning_target lon lat (Some []) = Some (t2, c2)"
    using Evaluate_total [OF assms] by blast
  show ?case
    using Cons.IH by (simp add: e1 e2)
qed

lemma ctor_lon_loop_entries:
  "ctor_lon_loop cfg valid planning_target stop_point end_time lats lons ev = Some ev' \<Longrightarrow>
   fst ` set (store_entries cfg ev') =
     fst ` set (store_entries cfg ev) \<union>
     {lon \<in> set lons. \<not> Curve_Evaluate lon 0 end_time > stop_point \<and> valid lon} \<times> set lats"
proof (induction lons arbitrary: ev)
  case Nil
  then show ?case by simp
next
  case (Cons lon lons)
  show ?case
  proof (cases "Curve_Evaluate lon 0 end_time > stop_point \<or> \<not> valid lon")
    case True
    then have "ctor_lon_loop cfg valid planning_target stop_point end_time lats lons ev = Some ev'"
      using Cons.prems by (auto simp: Let_def split: if_splits)
    from Cons.IH [OF this] True show ?thesis by auto
  next
    case False
    then obtain ev1 where
      l: "ctor_lat_loop cfg planning_target lon lats ev = Some ev1" and
      r: "ctor_lon_loop cfg valid planning_target stop_point end_time lats lons ev1 = Some ev'"
      using Cons.prems by (auto simp: Let_def split: if_splits bind_splits)
    from Cons.IH [OF r] ctor_lat_loop_entries [OF l] False show ?thesis by auto
  qed
qed

lemma ctor_lon_loop_total:
  assumes "0 < FLAGS_trajectory_time_resolution cfg" "0 < FLAGS_trajectory_space_resolution cfg"
  shows "\<exists>ev'. ctor_lon_loop cfg valid planning_target stop_point end_time lats lons ev = Some ev'"
proof (induction lons arbitrary: ev)
  case Nil
  then show ?case by simp
next
  case (Cons lon lons)
  obtain ev1 where "ctor_lat_loop cfg planning_target lon lats ev = Some ev1"
    using ctor_lat_loop_total [OF assms] by blast
  then show ?case
    using Cons.IH by (simp add: Let_def)
qed

lemma new_TrajectoryEvaluator_entries:
  assumes "new_TrajectoryEvaluator cfg valid init_state planning_target lons lats graph = Some ev"
  shows "fst ` set (store_entries cfg ev) =
     {lon \<in> set lons.
        \<not> Curve_Evaluate lon 0 (FLAGS_trajectory_time_length cfg) >
            (case stop_point_s planning_target of None \<Rightarrow> DBL_MAX | Some s \<Rightarrow> s) \<and>
        valid lon} \<times> set lats"
  using ctor_lon_loop_entries [OF assms [unfolded new_TrajectoryEvaluator_def Let_def]]
  by (simp add: store_entries_def)

text \<open>
  Claim C2. The constructor returns whenever the time and space resolutions are positive,
  and every pair that any number of calls of \<^verbatim>\<open>next_top_trajectory_pair\<close> retrieves from
  the evaluator it built has a longitudinal candidate of the input list that passed the
  external feasibility predicate and whose position at the end of the horizon does not
  exceed the stop position of the target (when there is one). So a candidate that
  overshoots the stop point, or that the predicate rejects, is in no retrieved pair.
\<close>

theorem rejected_candidates_never_retrieved:
  "(0 < FLAGS_trajectory_time_resolution cfg \<and> 0 < FLAGS_trajectory_space_resolution cfg \<longrightarrow>
      new_TrajectoryEvaluator cfg valid init_state planning_target lons lats graph \<noteq> None) \<and>
   (\<forall>ev n lon lat cost.
      new_TrajectoryEvaluator cfg valid init_state planning_target lons lats graph = Some ev \<and>
      ((lon, lat), cost) \<in> set (take_best_calls cfg n ev) \<longrightarrow>
      lon \<in> set lons \<and> lat \<in> set lats \<and> valid lon \<and>
      (\<forall>stop_s. stop_point_s planning_target = Some stop_s \<longrightarrow>
         \<not> Curve_Evaluate lon 0 (FLAGS_trajectory_time_length cfg) > stop_s))"
proof (intro conjI allI impI)
  assume "0 < FLAGS_trajectory_time_resolution cfg \<and> 0 < FLAGS_trajectory_space_resolution cfg"
  then show "new_TrajectoryEvaluator cfg valid init_state planning_target lons lats graph \<noteq> None"
    using ctor_lon_loop_total [of cfg valid planning_target]
    by (simp add: new_TrajectoryEvaluator_def Let_def)
next
  fix ev n lon lat cost
  assume a: "new_TrajectoryEvaluator cfg valid init_state planning_target lons lats graph = Some ev \<and>
      ((lon, lat), cost) \<in> set (take_best_calls cfg n ev)"
  then have "(lon, lat) \<in> fst ` set (store_entries cfg ev)"
    using take_best_calls_subset [of cfg n ev] by force
  then have m: "(lon, lat) \<in> {lon \<in> set lons.
        \<not> Curve_Evaluate lon 0 (FLAGS_trajectory_time_length cfg) >
            (case stop_point_s planning_target of None \<Rightarrow> DBL_MAX | Some s \<Rightarrow> s) \<and>
        valid lon} \<times> set lats"
    using new_TrajectoryEvaluator_entries a by blast
  then show "lon \<in> set lons" "lat \<in> set lats" "valid lon" by auto
  fix stop_s
  assume "stop_point_s planning_target = Some stop_s"
  with m show "\<not> Curve_Evaluate lon 0 (FLAGS_trajectory_time_length cfg) > stop_s" by simp
qed

text \<open>Of two longitudinal candidates, the one that reaches 12, past the stop point at 10, is
  left out; the one that reaches 3 is retrieved.\<close>

theorem rejected_candidates_never_retrieved_witness:
  "0 < FLAGS_trajectory_time_resolution demo_flags \<and>
   0 < FLAGS_trajectory_space_resolution demo_flags \<and>
   stop_point_s demo_target = Some 10 \<and>
   Curve_Evaluate fast_lon 0 (FLAGS_trajectory_time_length demo_flags) = 12 \<and>
   Curve_Evaluate slow_lon 0 (FLAGS_trajectory_time_length demo_flags) = 3 \<and>
   map_option (take_best_calls demo_flags 2)
     (new_TrajectoryEvaluator demo_flags (\<lambda>lon. True) (0, 5, 0) demo_target
        [fast_lon, slow_lon] [demo_lat] free_road) =
     Some [((slow_lon, demo_lat), 457 / 20)]"
  using rejected_candidates_never_retrieved [of demo_flags "\<lambda>lon. True" "(0, 5, 0)" demo_target
      "[fast_lon, slow_lon]" "[demo_lat]" free_road]
  by (simp add: demo_defs cost_defs queue_defs new_TrajectoryEvaluator_def numeral_2_eq_2)

end
